theory Spec2Isabelle
  imports Main
begin

text \<open>
  The session store of \<^verbatim>\<open>postgres.go\<close>: package \<^verbatim>\<open>pgstore\<close>, the text that
  \<^verbatim>\<open>pgstore_test.go\<close> exercises (the file also holds an earlier text of the store,
  package \<^verbatim>\<open>postgres\<close>, which is not modelled). PostgreSQL and \<^verbatim>\<open>database/sql\<close> are
  modelled as far as the statements of the store reach.
\<close>

section \<open>Go values used by the store\<close>

text \<open>
  \<^verbatim>\<open>time.Time\<close> values are instants, taken at the resolution of the database; an
  instant is an integer. \<^verbatim>\<open>net.IP\<close> is a byte slice, the nil slice being the empty
  list. \<^verbatim>\<open>time.Duration\<close> is a signed integer.
\<close>

type_synonym time = int
type_synonym IP = "nat list"
type_synonym Duration = int

text \<open>
  Modelled from the spec: the declaration of \<^verbatim>\<open>sessionup.Session\<close> is not part of the
  sources; its fields are those of the spec's data model, under the names
  \<^verbatim>\<open>postgres.go\<close> uses for them.
\<close>

record Agent =
  OS :: string
  Browser :: string

record Session =
  CreatedAt :: time
  ExpiresAt :: time
  ID :: string
  UserKey :: string
  IP :: IP
  Agent :: Agent

text \<open>The zero value \<^verbatim>\<open>sessionup.Session{}\<close>.\<close>

definition zero_Session :: Session where
  "zero_Session =
     \<lparr>CreatedAt = 0, ExpiresAt = 0, ID = [], UserKey = [], IP = [],
      Agent = \<lparr>OS = [], Browser = []\<rparr>\<rparr>"

text \<open>\<^verbatim>\<open>sql.NullString\<close>, with its zero value.\<close>

record NullString =
  String :: string
  Valid :: bool

definition zero_NullString :: NullString where
  "zero_NullString = \<lparr>String = [], Valid = False\<rparr>"

text \<open>
  Errors. \<open>db_error\<close> holds what the database handle and its driver report:
  the sentinel \<^verbatim>\<open>sql.ErrNoRows\<close>, a \<^verbatim>\<open>*pq.Error\<close> with its \<^verbatim>\<open>Code\<close> and
  \<^verbatim>\<open>Constraint\<close> fields, and every other error (a lost connection, a cancelled
  context, a failed conversion). \<open>error\<close> is what the store returns: the sentinel
  \<^verbatim>\<open>sessionup.ErrDuplicateID\<close> or an error of the database, unchanged. The nil
  error is \<open>None\<close>.
\<close>

datatype db_error =
    ErrNoRows
  | PqError (Code: string) (Constraint: string)
  | OtherError string

datatype error =
    ErrDuplicateID
  | DBError db_error

text \<open>
  The two functions of package \<^verbatim>\<open>net\<close> the store calls. \<^verbatim>\<open>IP.String\<close> returns
  \<^verbatim>\<open>"<nil>"\<close> for a slice of length 0; how it renders any other slice, and what
  \<^verbatim>\<open>net.ParseIP\<close> returns, are parameters of the model.
\<close>

record netpkg =
  render :: "IP \<Rightarrow> string"
  ParseIP :: "string \<Rightarrow> IP"

definition IP_String :: "netpkg \<Rightarrow> IP \<Rightarrow> string" where
  "IP_String N ip = (if length ip = 0 then ''<nil>'' else render N ip)"

section \<open>The database\<close>

subsection \<open>Statement text\<close>

text \<open>
  The store sends SQL text. The text is split into tokens at white space; the
  characters \<^verbatim>\<open>( ) , ;\<close> are tokens of their own.
\<close>

definition is_space :: "char \<Rightarrow> bool" where
  "is_space c = (c = CHR '' '' \<or> c = CHR 0x0A \<or> c = CHR 0x09)"

definition is_punct :: "char \<Rightarrow> bool" where
  "is_punct c = (c = CHR ''('' \<or> c = CHR '')'' \<or> c = CHR '','' \<or> c = CHR '';'')"

definition flush :: "string \<Rightarrow> string list" where
  "flush w = (if w = [] then [] else [w])"

fun tokenize :: "string \<Rightarrow> string \<Rightarrow> string list" where
  "tokenize w [] = flush w"
| "tokenize w (c # cs) =
     (if is_space c then flush w @ tokenize [] cs
      else if is_punct c then flush w @ [c] # tokenize [] cs
      else tokenize (w @ [c]) cs)"

definition tokens :: "string \<Rightarrow> string list" where
  "tokens q = tokenize [] q"

text \<open>
  Names are unquoted identifiers: letters, digits and underscores, no digit first.
  PostgreSQL folds an unquoted identifier to lower case.
\<close>

definition is_upper :: "char \<Rightarrow> bool" where
  "is_upper c = (65 \<le> (of_char c :: nat) \<and> (of_char c :: nat) \<le> 90)"

definition is_lower :: "char \<Rightarrow> bool" where
  "is_lower c = (97 \<le> (of_char c :: nat) \<and> (of_char c :: nat) \<le> 122)"

definition is_digit :: "char \<Rightarrow> bool" where
  "is_digit c = (48 \<le> (of_char c :: nat) \<and> (of_char c :: nat) \<le> 57)"

definition is_ident_char :: "char \<Rightarrow> bool" where
  "is_ident_char c = (is_upper c \<or> is_lower c \<or> is_digit c \<or> c = CHR ''_'')"

definition is_ident :: "string \<Rightarrow> bool" where
  "is_ident t = (case t of [] \<Rightarrow> False | c # cs \<Rightarrow> \<not> is_digit c \<and> list_all is_ident_char t)"

definition to_lower :: "char \<Rightarrow> char" where
  "to_lower c = (if is_upper c then char_of ((of_char c :: nat) + 32) else c)"

definition fold_ident :: "string \<Rightarrow> string" where
  "fold_ident t = map to_lower t"

text \<open>The statements of the model: the four kinds the store sends.\<close>

datatype operand = Param nat | CURRENT_TIMESTAMP

datatype cmp = Eq | Gt | Lt | NeAll

datatype cond = Cond string cmp operand

datatype coltype = TIMESTAMPTZ | TEXT

datatype constr = NOT_NULL | PRIMARY_KEY

datatype column = Column (cname: string) (ctype: coltype) (constrs: "constr list")

datatype stmt =
    CreateTable bool string "column list"
  | Insert string "operand list"
  | Select string "cond list"
  | Delete string "cond list"

text \<open>Splitting a token list at a separator token.\<close>

fun split_on :: "string \<Rightarrow> string list \<Rightarrow> string list list" where
  "split_on sep [] = [[]]"
| "split_on sep (t # ts) =
     (case split_on sep ts of
        [] \<Rightarrow> [[t]]
      | g # gs \<Rightarrow> if t = sep then [] # g # gs else (t # g) # gs)"

fun sequence :: "'a option list \<Rightarrow> 'a list option" where
  "sequence [] = Some []"
| "sequence (None # xs) = None"
| "sequence (Some x # xs) = (case sequence xs of None \<Rightarrow> None | Some ys \<Rightarrow> Some (x # ys))"

definition parse_nat :: "string \<Rightarrow> nat option" where
  "parse_nat ds =
     (if ds \<noteq> [] \<and> list_all is_digit ds
      then Some (foldl (\<lambda>n c. 10 * n + ((of_char c :: nat) - 48)) 0 ds)
      else None)"

definition parse_operand :: "string \<Rightarrow> operand option" where
  "parse_operand t =
     (if t = ''CURRENT_TIMESTAMP'' then Some CURRENT_TIMESTAMP
      else case t of
        [] \<Rightarrow> None
      | c # ds \<Rightarrow>
          if c = CHR ''$'' then
            (case parse_nat ds of
               None \<Rightarrow> None
             | Some n \<Rightarrow> if 0 < n then Some (Param n) else None)
          else None)"

definition parse_cmp :: "string \<Rightarrow> cmp option" where
  "parse_cmp t =
     (if t = ''='' then Some Eq
      else if t = ''>'' then Some Gt
      else if t = ''<'' then Some Lt
      else None)"

text \<open>
  A condition is \<^verbatim>\<open>column = x\<close>, \<^verbatim>\<open>column > x\<close>, \<^verbatim>\<open>column < x\<close> or
  \<^verbatim>\<open>column != ALL (x)\<close>; a \<^verbatim>\<open>WHERE\<close> clause joins conditions with \<^verbatim>\<open>AND\<close>.
\<close>

definition parse_cond :: "string list \<Rightarrow> cond option" where
  "parse_cond ts =
     (case ts of
        [c, opr, x] \<Rightarrow>
          (if is_ident c then
             (case (parse_cmp opr, parse_operand x) of
                (Some k, Some v) \<Rightarrow> Some (Cond (fold_ident c) k v)
              | _ \<Rightarrow> None)
           else None)
      | [c, ne, al, lp, x, rp] \<Rightarrow>
          (if is_ident c \<and> ne = ''!='' \<and> al = ''ALL'' \<and> lp = ''('' \<and> rp = '')'' then
             (case parse_operand x of
                Some v \<Rightarrow> Some (Cond (fold_ident c) NeAll v)
              | None \<Rightarrow> None)
           else None)
      | _ \<Rightarrow> None)"

definition parse_where :: "string list \<Rightarrow> cond list option" where
  "parse_where ts = sequence (map parse_cond (split_on ''AND'' ts))"

definition parse_coltype :: "string \<Rightarrow> coltype option" where
  "parse_coltype t =
     (if t = ''TIMESTAMPTZ'' then Some TIMESTAMPTZ
      else if t = ''TEXT'' then Some TEXT
      else None)"

fun parse_constrs :: "string list \<Rightarrow> constr list option" where
  "parse_constrs [] = Some []"
| "parse_constrs [a] = None"
| "parse_constrs (a # b # ts) =
     (if a = ''NOT'' \<and> b = ''NULL'' then map_option ((#) NOT_NULL) (parse_constrs ts)
      else if a = ''PRIMARY'' \<and> b = ''KEY'' then map_option ((#) PRIMARY_KEY) (parse_constrs ts)
      else None)"

definition parse_column :: "string list \<Rightarrow> column option" where
  "parse_column ts =
     (case ts of
        n # ty # cs \<Rightarrow>
          (if is_ident n then
             (case (parse_coltype ty, parse_constrs cs) of
                (Some k, Some ks) \<Rightarrow> Some (Column (fold_ident n) k ks)
              | _ \<Rightarrow> None)
           else None)
      | _ \<Rightarrow> None)"

text \<open>
  The body of a statement, after the table name: a parenthesised list for
  \<^verbatim>\<open>CREATE TABLE\<close> and \<^verbatim>\<open>VALUES\<close>, a \<^verbatim>\<open>WHERE\<close> clause for \<^verbatim>\<open>SELECT\<close> and
  \<^verbatim>\<open>DELETE\<close>. Every statement ends with a semicolon.
\<close>

definition parse_list :: "(string list \<Rightarrow> 'a option) \<Rightarrow> string list \<Rightarrow> 'a list option" where
  "parse_list item ts =
     (case ts of
        [] \<Rightarrow> None
      | lp # rest \<Rightarrow>
          (if lp = ''('' \<and> 2 \<le> length rest \<and> drop (length rest - 2) rest = ['')'', '';'']
           then sequence (map item (split_on '','' (take (length rest - 2) rest)))
           else None))"

definition parse_value :: "string list \<Rightarrow> operand option" where
  "parse_value ts = (case ts of [x] \<Rightarrow> parse_operand x | _ \<Rightarrow> None)"

definition parse_clause :: "string list \<Rightarrow> cond list option" where
  "parse_clause ts =
     (case ts of
        [] \<Rightarrow> None
      | w # rest \<Rightarrow>
          (if w = ''WHERE'' \<and> rest \<noteq> [] \<and> last rest = '';''
           then parse_where (butlast rest)
           else None))"

definition parse_stmt :: "string list \<Rightarrow> stmt option" where
  "parse_stmt ts =
     (if take 5 ts = [''CREATE'', ''TABLE'', ''IF'', ''NOT'', ''EXISTS''] then
        (case drop 5 ts of
           t # rest \<Rightarrow>
             if is_ident t then map_option (CreateTable True (fold_ident t)) (parse_list parse_column rest)
             else None
         | [] \<Rightarrow> None)
      else if take 2 ts = [''CREATE'', ''TABLE''] then
        (case drop 2 ts of
           t # rest \<Rightarrow>
             if is_ident t then map_option (CreateTable False (fold_ident t)) (parse_list parse_column rest)
             else None
         | [] \<Rightarrow> None)
      else if take 2 ts = [''INSERT'', ''INTO''] then
        (case drop 2 ts of
           t # v # rest \<Rightarrow>
             if is_ident t \<and> v = ''VALUES'' then map_option (Insert (fold_ident t)) (parse_list parse_value rest)
             else None
         | _ \<Rightarrow> None)
      else if take 3 ts = [''SELECT'', ''*'', ''FROM''] then
        (case drop 3 ts of
           t # rest \<Rightarrow>
             if is_ident t then map_option (Select (fold_ident t)) (parse_clause rest)
             else None
         | [] \<Rightarrow> None)
      else if take 2 ts = [''DELETE'', ''FROM''] then
        (case drop 2 ts of
           t # rest \<Rightarrow>
             if is_ident t then map_option (Delete (fold_ident t)) (parse_clause rest)
             else None
         | [] \<Rightarrow> None)
      else None)"

definition parse :: "string \<Rightarrow> stmt option" where
  "parse q = parse_stmt (tokens q)"

subsection \<open>Tables and statement execution\<close>

text \<open>
  Values bound to the parameters of a statement: SQL \<^verbatim>\<open>NULL\<close>, a text, an instant,
  and the text array \<^verbatim>\<open>pq.Array\<close> makes of a string slice.
\<close>

datatype val = VNull | VText string | VTime time | VTextArray "string list"

text \<open>
  The model knows one table layout, the seven columns of the constant \<^verbatim>\<open>table\<close>
  of \<^verbatim>\<open>postgres.go\<close>. A row has one field for each column; a column that is not
  declared \<^verbatim>\<open>NOT NULL\<close> or \<^verbatim>\<open>PRIMARY KEY\<close> holds an optional text, \<open>None\<close> being
  \<^verbatim>\<open>NULL\<close>.
\<close>

definition session_columns :: "column list" where
  "session_columns =
     [Column ''created_at'' TIMESTAMPTZ [NOT_NULL],
      Column ''expires_at'' TIMESTAMPTZ [NOT_NULL],
      Column ''id'' TEXT [PRIMARY_KEY],
      Column ''user_key'' TEXT [NOT_NULL],
      Column ''ip'' TEXT [],
      Column ''agent_os'' TEXT [],
      Column ''agent_browser'' TEXT []]"

record row =
  created_at :: time
  expires_at :: time
  row_id :: string
  user_key :: string
  row_ip :: "string option"
  agent_os :: "string option"
  agent_browser :: "string option"

text \<open>
  A table holds its rows in insertion order and the indexes defined on it, each a
  name with the columns it covers. A database maps the names of its tables to them.
\<close>

record table =
  rows :: "row list"
  indexes :: "(string \<times> string list) list"

type_synonym db = "string \<Rightarrow> table option"

definition column_type :: "string \<Rightarrow> coltype option" where
  "column_type c = map_of (map (\<lambda>k. (cname k, ctype k)) session_columns) c"

definition opt_val :: "string option \<Rightarrow> val" where
  "opt_val x = (case x of None \<Rightarrow> VNull | Some s \<Rightarrow> VText s)"

definition cell :: "string \<Rightarrow> row \<Rightarrow> val option" where
  "cell c r =
     (if c = ''created_at'' then Some (VTime (created_at r))
      else if c = ''expires_at'' then Some (VTime (expires_at r))
      else if c = ''id'' then Some (VText (row_id r))
      else if c = ''user_key'' then Some (VText (user_key r))
      else if c = ''ip'' then Some (opt_val (row_ip r))
      else if c = ''agent_os'' then Some (opt_val (agent_os r))
      else if c = ''agent_browser'' then Some (opt_val (agent_browser r))
      else None)"

text \<open>
  The value of an operand: the database's clock for \<^verbatim>\<open>CURRENT_TIMESTAMP\<close>, the
  \<open>n\<close>-th bound value for \<^verbatim>\<open>$n\<close>.
\<close>

definition operand_val :: "time \<Rightarrow> val list \<Rightarrow> operand \<Rightarrow> val option" where
  "operand_val clock args x =
     (case x of
        CURRENT_TIMESTAMP \<Rightarrow> Some (VTime clock)
      | Param n \<Rightarrow> if 0 < n \<and> n \<le> length args then Some (args ! (n - 1)) else None)"

text \<open>
  A condition is accepted when its column exists and the operand has the column's
  type; texts are compared for equality only, instants also for order, and
  \<^verbatim>\<open>!= ALL\<close> takes a text array.
\<close>

definition cond_ok :: "val list \<Rightarrow> cond \<Rightarrow> bool" where
  "cond_ok args c =
     (case c of Cond n k x \<Rightarrow>
        (case (column_type n, operand_val 0 args x) of
           (Some TEXT, Some (VText b)) \<Rightarrow> k = Eq
         | (Some TEXT, Some VNull) \<Rightarrow> k = Eq
         | (Some TEXT, Some (VTextArray bs)) \<Rightarrow> k = NeAll
         | (Some TIMESTAMPTZ, Some (VTime b)) \<Rightarrow> k = Eq \<or> k = Gt \<or> k = Lt
         | (Some TIMESTAMPTZ, Some VNull) \<Rightarrow> k = Eq \<or> k = Gt \<or> k = Lt
         | _ \<Rightarrow> False))"

text \<open>
  A row satisfies a condition when the comparison is true; a comparison with
  \<^verbatim>\<open>NULL\<close> is unknown and selects nothing. \<^verbatim>\<open>a != ALL (bs)\<close> is true when \<open>a\<close>
  differs from every element of \<open>bs\<close>.
\<close>

definition holds :: "time \<Rightarrow> val list \<Rightarrow> row \<Rightarrow> cond \<Rightarrow> bool" where
  "holds clock args r c =
     (case c of Cond n k x \<Rightarrow>
        (case (cell n r, operand_val clock args x) of
           (Some (VText a), Some (VText b)) \<Rightarrow> k = Eq \<and> a = b
         | (Some (VText a), Some (VTextArray bs)) \<Rightarrow> k = NeAll \<and> a \<notin> set bs
         | (Some (VTime a), Some (VTime b)) \<Rightarrow>
             (k = Eq \<and> a = b) \<or> (k = Gt \<and> b < a) \<or> (k = Lt \<and> a < b)
         | _ \<Rightarrow> False))"

definition matches :: "time \<Rightarrow> val list \<Rightarrow> cond list \<Rightarrow> row \<Rightarrow> bool" where
  "matches clock args cs r = list_all (holds clock args r) cs"

text \<open>The number of parameters a statement refers to: its highest \<^verbatim>\<open>$n\<close>.\<close>

definition operand_index :: "operand \<Rightarrow> nat" where
  "operand_index x = (case x of Param n \<Rightarrow> n | CURRENT_TIMESTAMP \<Rightarrow> 0)"

definition cond_operand :: "cond \<Rightarrow> operand" where
  "cond_operand c = (case c of Cond n k x \<Rightarrow> x)"

definition nparams :: "stmt \<Rightarrow> nat" where
  "nparams st =
     (case st of
        CreateTable ine t cols \<Rightarrow> 0
      | Insert t xs \<Rightarrow> foldr max (map operand_index xs) 0
      | Select t cs \<Rightarrow> foldr max (map (operand_index \<circ> cond_operand) cs) 0
      | Delete t cs \<Rightarrow> foldr max (map (operand_index \<circ> cond_operand) cs) 0)"

text \<open>Errors of the server, with their SQLSTATE codes.\<close>

definition syntax_error :: db_error where
  "syntax_error = PqError ''42601'' []"

definition undefined_table :: db_error where
  "undefined_table = PqError ''42P01'' []"

definition duplicate_table :: db_error where
  "duplicate_table = PqError ''42P07'' []"

definition feature_not_supported :: db_error where
  "feature_not_supported = PqError ''0A000'' []"

definition datatype_mismatch :: db_error where
  "datatype_mismatch = PqError ''42804'' []"

definition not_null_violation :: db_error where
  "not_null_violation = PqError ''23502'' []"

definition unique_violation :: "string \<Rightarrow> db_error" where
  "unique_violation t = PqError ''23505'' (t @ ''_pkey'')"

definition parameter_count :: db_error where
  "parameter_count = OtherError ''pq: wrong number of parameters''"

text \<open>
  The row an \<^verbatim>\<open>INSERT\<close> builds from its values, in column order; missing values
  are \<^verbatim>\<open>NULL\<close>. \<^verbatim>\<open>NULL\<close> in one of the first four columns violates \<^verbatim>\<open>NOT NULL\<close>
  (a primary key column is not null). A value of another type than the column's is
  refused; the store never sends one.
\<close>

definition nullable_text :: "val \<Rightarrow> string option option" where
  "nullable_text v =
     (case v of VNull \<Rightarrow> Some None | VText s \<Rightarrow> Some (Some s) | _ \<Rightarrow> None)"

definition row_of_vals :: "val list \<Rightarrow> db_error + row" where
  "row_of_vals vs =
     (if 7 < length vs then Inl syntax_error
      else case vs @ replicate (7 - length vs) VNull of
        [c, e, i, u, a, b, w] \<Rightarrow>
          (if c = VNull \<or> e = VNull \<or> i = VNull \<or> u = VNull then Inl not_null_violation
           else case (c, e, i, u, nullable_text a, nullable_text b, nullable_text w) of
             (VTime c', VTime e', VText i', VText u', Some a', Some b', Some w') \<Rightarrow>
               Inr \<lparr>created_at = c', expires_at = e', row_id = i', user_key = u',
                    row_ip = a', agent_os = b', agent_browser = w'\<rparr>
           | _ \<Rightarrow> Inl datatype_mismatch)
      | _ \<Rightarrow> Inl syntax_error)"

text \<open>
  A primary key gets an index of its own, named after the table with the suffix
  \<^verbatim>\<open>_pkey\<close>; the constraint has the same name.
\<close>

definition is_pkey :: "column \<Rightarrow> bool" where
  "is_pkey k = (PRIMARY_KEY \<in> set (constrs k))"

definition pkey_indexes :: "string \<Rightarrow> column list \<Rightarrow> (string \<times> string list) list" where
  "pkey_indexes t cols =
     (if filter is_pkey cols = [] then []
      else [(t @ ''_pkey'', map cname (filter is_pkey cols))])"

text \<open>
  Running a statement. \<^verbatim>\<open>CREATE TABLE\<close> makes an empty table, and with
  \<^verbatim>\<open>IF NOT EXISTS\<close> leaves an existing one as it is; \<^verbatim>\<open>INSERT\<close> appends a row
  unless its id is taken; \<^verbatim>\<open>DELETE\<close> removes the rows that satisfy every
  condition; \<^verbatim>\<open>SELECT\<close> changes nothing. A statement that fails changes nothing.
\<close>

definition run_stmt :: "time \<Rightarrow> stmt \<Rightarrow> val list \<Rightarrow> db \<Rightarrow> db_error option \<times> db" where
  "run_stmt clock st args d =
     (if length args \<noteq> nparams st then (Some parameter_count, d)
      else case st of
        CreateTable ine t cols \<Rightarrow>
          (case d t of
             Some tb \<Rightarrow> if ine then (None, d) else (Some duplicate_table, d)
           | None \<Rightarrow>
               if cols = session_columns
               then (None, d(t \<mapsto> \<lparr>rows = [], indexes = pkey_indexes t cols\<rparr>))
               else (Some feature_not_supported, d))
      | Insert t xs \<Rightarrow>
          (case d t of
             None \<Rightarrow> (Some undefined_table, d)
           | Some tb \<Rightarrow>
               (case sequence (map (operand_val clock args) xs) of
                  None \<Rightarrow> (Some parameter_count, d)
                | Some vs \<Rightarrow>
                    (case row_of_vals vs of
                       Inl e \<Rightarrow> (Some e, d)
                     | Inr r \<Rightarrow>
                         if row_id r \<in> set (map row_id (rows tb))
                         then (Some (unique_violation t), d)
                         else (None, d(t \<mapsto> tb\<lparr>rows := rows tb @ [r]\<rparr>)))))
      | Select t cs \<Rightarrow>
          (case d t of
             None \<Rightarrow> (Some undefined_table, d)
           | Some tb \<Rightarrow>
               if list_all (cond_ok args) cs then (None, d) else (Some datatype_mismatch, d))
      | Delete t cs \<Rightarrow>
          (case d t of
             None \<Rightarrow> (Some undefined_table, d)
           | Some tb \<Rightarrow>
               if list_all (cond_ok args) cs
               then (None, d(t \<mapsto> tb\<lparr>rows := filter (\<lambda>r. \<not> matches clock args cs r) (rows tb)\<rparr>))
               else (Some datatype_mismatch, d)))"

subsection \<open>The database handle\<close>

text \<open>
  What a call through \<^verbatim>\<open>*sql.DB\<close> meets besides the tables: the database's clock,
  and the failures of the connection, the driver or the context. \<open>fail\<close> is the
  error of a call that does not reach the server (the statement then has no effect),
  \<open>scan_fail\<close> makes \<^verbatim>\<open>Scan\<close> fail on the row of the given position in the result,
  \<open>next_fail\<close> makes the cursor stop after the given number of rows with an error
  that \<^verbatim>\<open>Rows.Err\<close> reports.
\<close>

record env =
  now :: time
  fail :: "db_error option"
  scan_fail :: "(nat \<times> db_error) option"
  next_fail :: "(nat \<times> db_error) option"

text \<open>\<^verbatim>\<open>DB.Exec\<close>; the \<^verbatim>\<open>sql.Result\<close> is not modelled, the store drops it.\<close>

definition Exec :: "env \<Rightarrow> db \<Rightarrow> string \<Rightarrow> val list \<Rightarrow> db_error option \<times> db" where
  "Exec E d q args =
     (case fail E of
        Some e \<Rightarrow> (Some e, d)
      | None \<Rightarrow>
          (case parse q of
             None \<Rightarrow> (Some syntax_error, d)
           | Some st \<Rightarrow> run_stmt (now E) st args d))"

text \<open>
  \<^verbatim>\<open>DB.ExecContext\<close> is \<^verbatim>\<open>DB.Exec\<close> under a context; a cancelled context is one of
  the failures of \<open>fail\<close>.
\<close>

definition ExecContext :: "env \<Rightarrow> db \<Rightarrow> string \<Rightarrow> val list \<Rightarrow> db_error option \<times> db" where
  "ExecContext E d q args = Exec E d q args"

text \<open>
  \<^verbatim>\<open>*sql.Rows\<close>: the rows still to come, each with the outcome of its \<^verbatim>\<open>Scan\<close>, and
  the error \<^verbatim>\<open>Rows.Err\<close> reports once \<^verbatim>\<open>Next\<close> has returned false.
\<close>

record Rows =
  items :: "(db_error + row) list"
  Err :: "db_error option"

definition cursor :: "env \<Rightarrow> row list \<Rightarrow> Rows" where
  "cursor E rs =
     (let xs = map Inr rs;
          ys = (case scan_fail E of
                  None \<Rightarrow> xs
                | Some (k, e) \<Rightarrow> if k < length xs then xs[k := Inl e] else xs)
      in case next_fail E of
           None \<Rightarrow> \<lparr>items = ys, Err = None\<rparr>
         | Some (k, e) \<Rightarrow> \<lparr>items = take k ys, Err = Some e\<rparr>)"

text \<open>\<^verbatim>\<open>DB.QueryContext\<close>, for \<^verbatim>\<open>SELECT\<close> statements.\<close>

definition QueryContext :: "env \<Rightarrow> db \<Rightarrow> string \<Rightarrow> val list \<Rightarrow> db_error + Rows" where
  "QueryContext E d q args =
     (case fail E of
        Some e \<Rightarrow> Inl e
      | None \<Rightarrow>
          (case parse q of
             Some (Select t cs) \<Rightarrow>
               (case fst (run_stmt (now E) (Select t cs) args d) of
                  Some e \<Rightarrow> Inl e
                | None \<Rightarrow>
                    (case d t of
                       None \<Rightarrow> Inl undefined_table
                     | Some tb \<Rightarrow> Inr (cursor E (filter (matches (now E) args cs) (rows tb)))))
           | Some st \<Rightarrow> Inl feature_not_supported
           | None \<Rightarrow> Inl syntax_error))"

text \<open>
  \<^verbatim>\<open>DB.QueryRowContext\<close> keeps the outcome of the query; \<^verbatim>\<open>Row.Scan\<close> returns the
  query's error if there is one, \<^verbatim>\<open>sql.ErrNoRows\<close> (or the cursor's error) when there
  is no first row, and else scans the first row.
\<close>

definition QueryRowContext :: "env \<Rightarrow> db \<Rightarrow> string \<Rightarrow> val list \<Rightarrow> db_error + Rows" where
  "QueryRowContext E d q args = QueryContext E d q args"

definition Row_Scan :: "db_error + Rows \<Rightarrow> db_error + row" where
  "Row_Scan r =
     (case r of
        Inl e \<Rightarrow> Inl e
      | Inr rr \<Rightarrow>
          (case items rr of
             [] \<Rightarrow> (case Err rr of Some e \<Rightarrow> Inl e | None \<Rightarrow> Inl ErrNoRows)
           | x # xs \<Rightarrow> x))"

text \<open>
  Scanning a row into the seven destinations of the store: four fields of the
  session and three \<^verbatim>\<open>sql.NullString\<close>s. A \<^verbatim>\<open>NULL\<close> scans to the zero
  \<^verbatim>\<open>NullString\<close>.
\<close>

definition scan_NullString :: "string option \<Rightarrow> NullString" where
  "scan_NullString x =
     (case x of None \<Rightarrow> \<lparr>String = [], Valid = False\<rparr> | Some v \<Rightarrow> \<lparr>String = v, Valid = True\<rparr>)"

definition Scan :: "row \<Rightarrow> Session \<Rightarrow> Session \<times> NullString \<times> NullString \<times> NullString" where
  "Scan r s =
     (s\<lparr>CreatedAt := created_at r, ExpiresAt := expires_at r, ID := row_id r,
        UserKey := user_key r\<rparr>,
      scan_NullString (row_ip r), scan_NullString (agent_os r), scan_NullString (agent_browser r))"

text \<open>\<^verbatim>\<open>NullString.Value\<close>: what the driver binds for a \<^verbatim>\<open>sql.NullString\<close>.\<close>

definition Value :: "NullString \<Rightarrow> val" where
  "Value ns = (if Valid ns then VText (String ns) else VNull)"

section \<open>The store\<close>

text \<open>
  \<^verbatim>\<open>PgStore\<close>. The handle \<^verbatim>\<open>db\<close> is the database passed to every operation; a
  channel is a number, a nil channel \<open>None\<close>.
\<close>

type_synonym chan = nat

record PgStore =
  tName :: string
  stopChan :: "chan option"
  errChan :: "chan option"

text \<open>The constant \<^verbatim>\<open>table\<close>, with the table name in the place of \<^verbatim>\<open>%s\<close>.\<close>

definition table :: "string \<Rightarrow> string" where
  "table t =
     ''CREATE TABLE IF NOT EXISTS '' @ t @ '' ('' @ [CHR 0x0A, CHR 0x09] @
     ''created_at TIMESTAMPTZ NOT NULL,'' @ [CHR 0x0A, CHR 0x09] @
     ''expires_at TIMESTAMPTZ NOT NULL,'' @ [CHR 0x0A, CHR 0x09] @
     ''id TEXT PRIMARY KEY,'' @ [CHR 0x0A, CHR 0x09] @
     ''user_key TEXT NOT NULL,'' @ [CHR 0x0A, CHR 0x09] @
     ''ip TEXT,'' @ [CHR 0x0A, CHR 0x09] @
     ''agent_os TEXT,'' @ [CHR 0x0A, CHR 0x09] @
     ''agent_browser TEXT'' @ [CHR 0x0A] @
     '');''"

text \<open>\<^verbatim>\<open>setNullString\<close>.\<close>

definition setNullString :: "string \<Rightarrow> NullString" where
  "setNullString s =
     (let ns = zero_NullString
      in if s \<noteq> [] \<and> s \<noteq> ''<nil>'' then ns\<lparr>String := s, Valid := True\<rparr> else ns)"

text \<open>\<^verbatim>\<open>Create\<close>.\<close>

definition Create :: "netpkg \<Rightarrow> PgStore \<Rightarrow> env \<Rightarrow> Session \<Rightarrow> db \<Rightarrow> error option \<times> db" where
  "Create N p E s d =
     (let q = ''INSERT INTO '' @ tName p @ '' VALUES ($1, $2, $3, $4, $5, $6, $7);'';
          (err, d') = ExecContext E d q
            [VTime (CreatedAt s), VTime (ExpiresAt s), VText (ID s), VText (UserKey s),
             Value (setNullString (IP_String N (IP s))),
             Value (setNullString (OS (Agent s))),
             Value (setNullString (Browser (Agent s)))]
      in case err of
           Some (PqError code c) \<Rightarrow>
             if c = tName p @ ''_pkey'' then (Some ErrDuplicateID, d')
             else (Some (DBError (PqError code c)), d')
         | Some e \<Rightarrow> (Some (DBError e), d')
         | None \<Rightarrow> (None, d'))"

text \<open>\<^verbatim>\<open>FetchByID\<close>.\<close>

definition FetchByID :: "netpkg \<Rightarrow> PgStore \<Rightarrow> env \<Rightarrow> string \<Rightarrow> db \<Rightarrow> Session \<times> bool \<times> error option" where
  "FetchByID N p E i d =
     (let q = ''SELECT * FROM '' @ tName p @
                '' WHERE id = $1 AND expires_at > CURRENT_TIMESTAMP;'';
          r = QueryRowContext E d q [VText i]
      in case Row_Scan r of
           Inl e \<Rightarrow>
             if e = ErrNoRows then (zero_Session, False, None)
             else (zero_Session, False, Some (DBError e))
         | Inr w \<Rightarrow>
             (case Scan w zero_Session of
                (s, ip, os, browser) \<Rightarrow>
                  (let s1 = (if Valid ip then s\<lparr>IP := ParseIP N (String ip)\<rparr> else s);
                       s2 = s1\<lparr>Agent := (Agent s1)\<lparr>OS := String os\<rparr>\<rparr>;
                       s3 = s2\<lparr>Agent := (Agent s2)\<lparr>Browser := String browser\<rparr>\<rparr>
                   in (s3, True, None))))"

text \<open>
  \<^verbatim>\<open>FetchByUserKey\<close>. Its loop runs while \<^verbatim>\<open>rr.Next()\<close> is true, that is over the
  items of the cursor, with the slice \<^verbatim>\<open>ss\<close> as accumulator; a failed \<^verbatim>\<open>Scan\<close>
  leaves the loop with the error.
\<close>

fun FetchByUserKey_loop :: "netpkg \<Rightarrow> (db_error + row) list \<Rightarrow> Session list \<Rightarrow> db_error + Session list" where
  "FetchByUserKey_loop N [] ss = Inr ss"
| "FetchByUserKey_loop N (Inl e # xs) ss = Inl e"
| "FetchByUserKey_loop N (Inr w # xs) ss =
     (case Scan w zero_Session of
        (s, ip, os, browser) \<Rightarrow>
          (let s1 = (if Valid ip then s\<lparr>IP := ParseIP N (String ip)\<rparr> else s);
               s2 = s1\<lparr>Agent := (Agent s1)\<lparr>OS := String os\<rparr>\<rparr>;
               s3 = s2\<lparr>Agent := (Agent s2)\<lparr>Browser := String browser\<rparr>\<rparr>
           in FetchByUserKey_loop N xs (ss @ [s3])))"

definition FetchByUserKey :: "netpkg \<Rightarrow> PgStore \<Rightarrow> env \<Rightarrow> string \<Rightarrow> db \<Rightarrow> Session list \<times> error option" where
  "FetchByUserKey N p E key d =
     (let q = ''SELECT * FROM '' @ tName p @ '' WHERE user_key = $1;''
      in case QueryContext E d q [VText key] of
           Inl e \<Rightarrow> if e = ErrNoRows then ([], None) else ([], Some (DBError e))
         | Inr rr \<Rightarrow>
             (case FetchByUserKey_loop N (items rr) [] of
                Inl e \<Rightarrow> ([], Some (DBError e))
              | Inr ss \<Rightarrow>
                  (case Err rr of
                     Some e \<Rightarrow> ([], Some (DBError e))
                   | None \<Rightarrow> (ss, None))))"

text \<open>\<^verbatim>\<open>DeleteByID\<close>, \<^verbatim>\<open>DeleteByUserKey\<close> and \<^verbatim>\<open>deleteExpired\<close>.\<close>

definition DeleteByID :: "PgStore \<Rightarrow> env \<Rightarrow> string \<Rightarrow> db \<Rightarrow> error option \<times> db" where
  "DeleteByID p E i d =
     (let q = ''DELETE FROM '' @ tName p @ '' WHERE id = $1;'';
          (err, d') = ExecContext E d q [VText i]
      in (map_option DBError err, d'))"

definition DeleteByUserKey :: "PgStore \<Rightarrow> env \<Rightarrow> string \<Rightarrow> string list \<Rightarrow> db \<Rightarrow> error option \<times> db" where
  "DeleteByUserKey p E key expID d =
     (if 0 < length expID then
        (let q = ''DELETE FROM '' @ tName p @ '' WHERE user_key = $1 AND id != ALL ($2);'';
             (err, d') = ExecContext E d q ([VText key] @ [VTextArray expID])
         in (map_option DBError err, d'))
      else
        (let q = ''DELETE FROM '' @ tName p @ '' WHERE user_key = $1;'';
             (err, d') = ExecContext E d q [VText key]
         in (map_option DBError err, d')))"

definition deleteExpired :: "PgStore \<Rightarrow> env \<Rightarrow> db \<Rightarrow> error option \<times> db" where
  "deleteExpired p E d =
     (let q = ''DELETE FROM '' @ tName p @ '' WHERE expires_at < CURRENT_TIMESTAMP;'';
          (err, d') = Exec E d q []
      in (map_option DBError err, d'))"

subsection \<open>Construction and the cleanup goroutine\<close>

text \<open>
  The goroutine of \<^verbatim>\<open>startCleanup\<close> is in one of these places: not created;
  created by the \<^verbatim>\<open>go\<close> statement and not yet run; waiting in its \<^verbatim>\<open>select\<close>;
  blocked in the send \<^verbatim>\<open>p.errChan <- err\<close>; returned.
\<close>

datatype goroutine = NotStarted | Spawned Duration | Selecting | Sending error | Returned

text \<open>
  \<^verbatim>\<open>New\<close> returns the store or the error, and leaves the goroutine created when the
  duration is positive. The channel \<^verbatim>\<open>errChan\<close> is made here, \<^verbatim>\<open>stopChan\<close> stays nil.
\<close>

definition New :: "env \<Rightarrow> db \<Rightarrow> string \<Rightarrow> Duration \<Rightarrow> (error + PgStore) \<times> goroutine \<times> db" where
  "New E d t dur =
     (let p = \<lparr>tName = t, stopChan = None, errChan = Some 0\<rparr>;
          (err, d') = Exec E d (table (tName p)) []
      in case err of
           Some e \<Rightarrow> (Inl (DBError e), NotStarted, d')
         | None \<Rightarrow>
             if 0 < dur then (Inr p, Spawned dur, d')
             else (Inr p, NotStarted, d'))"

text \<open>
  The store, its goroutine and the database together. What happens to the goroutine
  from outside: it is scheduled for the first time (\<open>Run\<close>), the ticker's channel
  delivers a tick (\<open>Tick\<close>, with what the database call of this sweep meets), a
  value is sent on \<^verbatim>\<open>stopChan\<close> (\<open>Stop\<close>), the host receives from \<^verbatim>\<open>errChan\<close>
  (\<open>Recv\<close>). Both channels are unbuffered, so a send and its receive are one step.
\<close>

record system =
  store :: PgStore
  sweeper :: goroutine
  database :: db

datatype event = Run | Tick env | Stop | Recv

text \<open>
  What a step of the goroutine shows: it started, it swept (with the result of
  \<^verbatim>\<open>deleteExpired\<close>), it delivered an error on \<^verbatim>\<open>errChan\<close>, it stopped.
\<close>

datatype obs = Started | Swept "error option" | Delivered error | Terminated

text \<open>
  One step of \<^verbatim>\<open>startCleanup\<close>. \<open>None\<close> means that the goroutine does not
  take the event where it is: whoever offers it waits.
\<close>

definition startCleanup_step :: "event \<Rightarrow> system \<Rightarrow> (system \<times> obs) option" where
  "startCleanup_step ev s =
     (case (sweeper s, ev) of
        (Spawned dur, Run) \<Rightarrow>
          Some (s\<lparr>store := (store s)\<lparr>stopChan := Some 1\<rparr>, sweeper := Selecting\<rparr>, Started)
      | (Selecting, Tick E) \<Rightarrow>
          (case deleteExpired (store s) E (database s) of
             (Some err, d') \<Rightarrow> Some (s\<lparr>sweeper := Sending err, database := d'\<rparr>, Swept (Some err))
           | (None, d') \<Rightarrow> Some (s\<lparr>database := d'\<rparr>, Swept None))
      | (Selecting, Stop) \<Rightarrow> Some (s\<lparr>sweeper := Returned\<rparr>, Terminated)
      | (Sending err, Recv) \<Rightarrow> Some (s\<lparr>sweeper := Selecting\<rparr>, Delivered err)
      | _ \<Rightarrow> None)"

text \<open>The goroutine over a sequence of events, with the trace of what it showed.\<close>

fun startCleanup :: "event list \<Rightarrow> system \<Rightarrow> system \<times> obs list" where
  "startCleanup [] s = (s, [])"
| "startCleanup (ev # evs) s =
     (case startCleanup_step ev s of
        None \<Rightarrow> startCleanup evs s
      | Some (s', b) \<Rightarrow> (case startCleanup evs s' of (s'', bs) \<Rightarrow> (s'', b # bs)))"

text \<open>
  \<^verbatim>\<open>StopCleanup\<close>: nothing when \<^verbatim>\<open>stopChan\<close> is nil; otherwise a send on
  \<^verbatim>\<open>stopChan\<close>, which returns once the goroutine has received it and blocks as long
  as the goroutine does not.
\<close>

datatype outcome = Returns system | Blocks

definition StopCleanup :: "system \<Rightarrow> outcome" where
  "StopCleanup s =
     (if stopChan (store s) \<noteq> None then
        (case startCleanup_step Stop s of
           Some (s', b) \<Rightarrow> Returns s'
         | None \<Rightarrow> Blocks)
      else Returns s)"

text \<open>\<^verbatim>\<open>CleanupErr\<close>.\<close>

definition CleanupErr :: "PgStore \<Rightarrow> chan option" where
  "CleanupErr p = errChan p"

text \<open>
  The row \<^verbatim>\<open>Create\<close> is to store for a session, and the session a stored row is
  to be read as: the two directions of the row codec, written out for the statements
  below.
\<close>

definition absent :: "string \<Rightarrow> string option" where
  "absent x = (if x = [] \<or> x = ''<nil>'' then None else Some x)"

definition session_row :: "netpkg \<Rightarrow> Session \<Rightarrow> row" where
  "session_row N s =
     \<lparr>created_at = CreatedAt s, expires_at = ExpiresAt s, row_id = ID s,
      user_key = UserKey s, row_ip = absent (IP_String N (IP s)),
      agent_os = absent (OS (Agent s)), agent_browser = absent (Browser (Agent s))\<rparr>"

definition row_session :: "netpkg \<Rightarrow> row \<Rightarrow> Session" where
  "row_session N r =
     \<lparr>CreatedAt = created_at r, ExpiresAt = expires_at r, ID = row_id r,
      UserKey = user_key r,
      IP = (case row_ip r of None \<Rightarrow> [] | Some a \<Rightarrow> ParseIP N a),
      Agent = \<lparr>OS = (case agent_os r of None \<Rightarrow> [] | Some x \<Rightarrow> x),
               Browser = (case agent_browser r of None \<Rightarrow> [] | Some x \<Rightarrow> x)\<rparr>\<rparr>"

text \<open>A call that meets no failure of the connection, the driver or the context.\<close>

definition healthy :: "env \<Rightarrow> bool" where
  "healthy E = (fail E = None \<and> scan_fail E = None \<and> next_fail E = None)"




text \<open>The columns some index of a table covers.\<close>

definition indexed_columns :: "table \<Rightarrow> string list" where
  "indexed_columns tb = concat (map snd (indexes tb))"

subsection \<open>Concrete data\<close>

text \<open>
  A table \<^verbatim>\<open>sessions\<close> with three sessions of the user \<^verbatim>\<open>key\<close> (the first expired
  at time 10) and one of another user, a store on it, a new session with no optional
  field, and calls that meet no failure.
\<close>

definition example_net :: netpkg where
  "example_net = \<lparr>render = map char_of, ParseIP = map of_char\<rparr>"

definition example_store :: PgStore where
  "example_store = \<lparr>tName = ''sessions'', stopChan = None, errChan = Some 0\<rparr>"

definition at_time :: "time \<Rightarrow> env" where
  "at_time clock = \<lparr>now = clock, fail = None, scan_fail = None, next_fail = None\<rparr>"

definition failing :: "db_error \<Rightarrow> env" where
  "failing e = \<lparr>now = 10, fail = Some e, scan_fail = None, next_fail = None\<rparr>"

definition example_row :: "string \<Rightarrow> string \<Rightarrow> time \<Rightarrow> row" where
  "example_row i k e =
     \<lparr>created_at = 1, expires_at = e, row_id = i, user_key = k,
      row_ip = None, agent_os = Some ''GNU/Linux'', agent_browser = Some ''Firefox''\<rparr>"

definition example_table :: table where
  "example_table =
     \<lparr>rows = [example_row ''id1'' ''key'' 5, example_row ''id2'' ''key'' 20,
              example_row ''id3'' ''key'' 30, example_row ''id4'' ''other'' 40],
      indexes = [(''sessions_pkey'', [''id''])]\<rparr>"

definition no_tables :: db where
  "no_tables = (\<lambda>t. None)"

definition example_db :: db where
  "example_db = no_tables(''sessions'' \<mapsto> example_table)"

definition example_session :: Session where
  "example_session =
     \<lparr>CreatedAt = 1, ExpiresAt = 20, ID = ''id5'', UserKey = ''key'', IP = [],
      Agent = \<lparr>OS = [], Browser = []\<rparr>\<rparr>"


section \<open>The statements the store sends\<close>

text \<open>
  For a table name that is an identifier, each statement text of \<^verbatim>\<open>postgres.go\<close>
  splits into the expected tokens and parses to the expected statement.
\<close>

lemma ident_char_plain: "is_ident_char c \<Longrightarrow> \<not> is_space c \<and> \<not> is_punct c"
  by (auto simp: is_ident_char_def is_space_def is_punct_def is_upper_def is_lower_def is_digit_def)

lemma tokenize_ident: "list_all is_ident_char t \<Longrightarrow> tokenize w (t @ cs) = tokenize (w @ t) cs"
  by (induction t arbitrary: w) (auto simp: ident_char_plain)

lemma is_ident_chars: "is_ident t \<Longrightarrow> list_all is_ident_char t \<and> t \<noteq> []"
  by (auto simp: is_ident_def split: list.splits)

lemma tokens_table:
  "is_ident t \<Longrightarrow> tokens (table t) =
     [''CREATE'', ''TABLE'', ''IF'', ''NOT'', ''EXISTS'', t, ''('',
      ''created_at'', ''TIMESTAMPTZ'', ''NOT'', ''NULL'', '','',
      ''expires_at'', ''TIMESTAMPTZ'', ''NOT'', ''NULL'', '','',
      ''id'', ''TEXT'', ''PRIMARY'', ''KEY'', '','',
      ''user_key'', ''TEXT'', ''NOT'', ''NULL'', '','',
      ''ip'', ''TEXT'', '','',
      ''agent_os'', ''TEXT'', '','',
      ''agent_browser'', ''TEXT'', '')'', '';'']"
  by (simp add: table_def tokens_def tokenize_ident is_ident_chars is_space_def is_punct_def flush_def)

lemma tokens_insert:
  "is_ident t \<Longrightarrow> tokens (''INSERT INTO '' @ t @ '' VALUES ($1, $2, $3, $4, $5, $6, $7);'') =
     [''INSERT'', ''INTO'', t, ''VALUES'', ''('', ''$1'', '','', ''$2'', '','', ''$3'', '','',
      ''$4'', '','', ''$5'', '','', ''$6'', '','', ''$7'', '')'', '';'']"
  by (simp add: tokens_def tokenize_ident is_ident_chars is_space_def is_punct_def flush_def)

lemma tokens_select_id:
  "is_ident t \<Longrightarrow>
   tokens (''SELECT * FROM '' @ t @ '' WHERE id = $1 AND expires_at > CURRENT_TIMESTAMP;'') =
     [''SELECT'', ''*'', ''FROM'', t, ''WHERE'', ''id'', ''='', ''$1'', ''AND'',
      ''expires_at'', ''>'', ''CURRENT_TIMESTAMP'', '';'']"
  by (simp add: tokens_def tokenize_ident is_ident_chars is_space_def is_punct_def flush_def)

lemma tokens_select_key:
  "is_ident t \<Longrightarrow> tokens (''SELECT * FROM '' @ t @ '' WHERE user_key = $1;'') =
     [''SELECT'', ''*'', ''FROM'', t, ''WHERE'', ''user_key'', ''='', ''$1'', '';'']"
  by (simp add: tokens_def tokenize_ident is_ident_chars is_space_def is_punct_def flush_def)

lemma tokens_delete_id:
  "is_ident t \<Longrightarrow> tokens (''DELETE FROM '' @ t @ '' WHERE id = $1;'') =
     [''DELETE'', ''FROM'', t, ''WHERE'', ''id'', ''='', ''$1'', '';'']"
  by (simp add: tokens_def tokenize_ident is_ident_chars is_space_def is_punct_def flush_def)

lemma tokens_delete_key_except:
  "is_ident t \<Longrightarrow> tokens (''DELETE FROM '' @ t @ '' WHERE user_key = $1 AND id != ALL ($2);'') =
     [''DELETE'', ''FROM'', t, ''WHERE'', ''user_key'', ''='', ''$1'', ''AND'',
      ''id'', ''!='', ''ALL'', ''('', ''$2'', '')'', '';'']"
  by (simp add: tokens_def tokenize_ident is_ident_chars is_space_def is_punct_def flush_def)

lemma tokens_delete_key:
  "is_ident t \<Longrightarrow> tokens (''DELETE FROM '' @ t @ '' WHERE user_key = $1;'') =
     [''DELETE'', ''FROM'', t, ''WHERE'', ''user_key'', ''='', ''$1'', '';'']"
  by (simp add: tokens_def tokenize_ident is_ident_chars is_space_def is_punct_def flush_def)


lemma columns_parse:
  "parse_list parse_column [''('',
      ''created_at'', ''TIMESTAMPTZ'', ''NOT'', ''NULL'', '','',
      ''expires_at'', ''TIMESTAMPTZ'', ''NOT'', ''NULL'', '','',
      ''id'', ''TEXT'', ''PRIMARY'', ''KEY'', '','',
      ''user_key'', ''TEXT'', ''NOT'', ''NULL'', '','',
      ''ip'', ''TEXT'', '','',
      ''agent_os'', ''TEXT'', '','',
      ''agent_browser'', ''TEXT'', '')'', '';''] = Some session_columns"
  by code_simp

lemma values_parse:
  "parse_list parse_value [''('', ''$1'', '','', ''$2'', '','', ''$3'', '','',
      ''$4'', '','', ''$5'', '','', ''$6'', '','', ''$7'', '')'', '';''] =
   Some [Param 1, Param 2, Param 3, Param 4, Param 5, Param 6, Param 7]"
  by code_simp

lemma clause_select_id:
  "parse_clause [''WHERE'', ''id'', ''='', ''$1'', ''AND'',
      ''expires_at'', ''>'', ''CURRENT_TIMESTAMP'', '';''] =
   Some [Cond ''id'' Eq (Param 1), Cond ''expires_at'' Gt CURRENT_TIMESTAMP]"
  by code_simp

lemma clause_key:
  "parse_clause [''WHERE'', ''user_key'', ''='', ''$1'', '';''] =
   Some [Cond ''user_key'' Eq (Param 1)]"
  by code_simp

lemma clause_id:
  "parse_clause [''WHERE'', ''id'', ''='', ''$1'', '';''] = Some [Cond ''id'' Eq (Param 1)]"
  by code_simp

lemma clause_key_except:
  "parse_clause [''WHERE'', ''user_key'', ''='', ''$1'', ''AND'',
      ''id'', ''!='', ''ALL'', ''('', ''$2'', '')'', '';''] =
   Some [Cond ''user_key'' Eq (Param 1), Cond ''id'' NeAll (Param 2)]"
  by code_simp


lemma parse_table:
  "is_ident t \<Longrightarrow> parse (table t) = Some (CreateTable True (fold_ident t) session_columns)"
  by (simp only: parse_def tokens_table) (simp add: parse_stmt_def columns_parse)

lemma parse_insert:
  "is_ident t \<Longrightarrow>
   parse (''INSERT INTO '' @ t @ '' VALUES ($1, $2, $3, $4, $5, $6, $7);'') =
   Some (Insert (fold_ident t) [Param 1, Param 2, Param 3, Param 4, Param 5, Param 6, Param 7])"
  by (simp only: parse_def tokens_insert) (simp add: parse_stmt_def values_parse)

lemma parse_select_id:
  "is_ident t \<Longrightarrow>
   parse (''SELECT * FROM '' @ t @ '' WHERE id = $1 AND expires_at > CURRENT_TIMESTAMP;'') =
   Some (Select (fold_ident t) [Cond ''id'' Eq (Param 1), Cond ''expires_at'' Gt CURRENT_TIMESTAMP])"
  by (simp only: parse_def tokens_select_id) (simp add: parse_stmt_def clause_select_id)

lemma parse_select_key:
  "is_ident t \<Longrightarrow> parse (''SELECT * FROM '' @ t @ '' WHERE user_key = $1;'') =
   Some (Select (fold_ident t) [Cond ''user_key'' Eq (Param 1)])"
  by (simp only: parse_def tokens_select_key) (simp add: parse_stmt_def clause_key)

lemma parse_delete_id:
  "is_ident t \<Longrightarrow> parse (''DELETE FROM '' @ t @ '' WHERE id = $1;'') =
   Some (Delete (fold_ident t) [Cond ''id'' Eq (Param 1)])"
  by (simp only: parse_def tokens_delete_id) (simp add: parse_stmt_def clause_id)

lemma parse_delete_key_except:
  "is_ident t \<Longrightarrow> parse (''DELETE FROM '' @ t @ '' WHERE user_key = $1 AND id != ALL ($2);'') =
   Some (Delete (fold_ident t) [Cond ''user_key'' Eq (Param 1), Cond ''id'' NeAll (Param 2)])"
  by (simp only: parse_def tokens_delete_key_except) (simp add: parse_stmt_def clause_key_except)

lemma parse_delete_key:
  "is_ident t \<Longrightarrow> parse (''DELETE FROM '' @ t @ '' WHERE user_key = $1;'') =
   Some (Delete (fold_ident t) [Cond ''user_key'' Eq (Param 1)])"
  by (simp only: parse_def tokens_delete_key) (simp add: parse_stmt_def clause_key)


section \<open>Running the statements\<close>

lemma Exec_parsed:
  "fail E = None \<Longrightarrow> parse q = Some st \<Longrightarrow> Exec E d q args = run_stmt (now E) st args d"
  by (simp add: Exec_def)

lemma Exec_failed: "fail E = Some e \<Longrightarrow> Exec E d q args = (Some e, d)"
  by (simp add: Exec_def)

lemma run_stmt_error_unchanged: "fst (run_stmt clock st args d) \<noteq> None \<Longrightarrow> snd (run_stmt clock st args d) = d"
  by (auto simp: run_stmt_def split: stmt.splits option.splits sum.splits if_splits)

lemma Exec_error_unchanged: "fst (Exec E d q args) \<noteq> None \<Longrightarrow> snd (Exec E d q args) = d"
  by (auto simp: Exec_def run_stmt_error_unchanged split: option.splits)

lemma Value_setNullString: "Value (setNullString x) = opt_val (absent x)"
  by (simp add: Value_def setNullString_def zero_NullString_def opt_val_def absent_def)

lemma row_of_session_vals:
  "row_of_vals [VTime c, VTime e, VText i, VText u, opt_val a, opt_val b, opt_val w] =
     Inr \<lparr>created_at = c, expires_at = e, row_id = i, user_key = u,
          row_ip = a, agent_os = b, agent_browser = w\<rparr>"
  by (cases a; cases b; cases w) (simp_all add: row_of_vals_def opt_val_def nullable_text_def)

lemma run_insert:
  "run_stmt clock (Insert t [Param 1, Param 2, Param 3, Param 4, Param 5, Param 6, Param 7])
     [VTime c, VTime e, VText i, VText u, opt_val a, opt_val b, opt_val w] d =
   (case d t of
      None \<Rightarrow> (Some undefined_table, d)
    | Some tb \<Rightarrow>
        if i \<in> set (map row_id (rows tb)) then (Some (unique_violation t), d)
        else (None, d(t \<mapsto> tb\<lparr>rows := rows tb @
               [\<lparr>created_at = c, expires_at = e, row_id = i, user_key = u,
                 row_ip = a, agent_os = b, agent_browser = w\<rparr>]\<rparr>)))"
  by (simp add: run_stmt_def nparams_def operand_index_def operand_val_def row_of_session_vals split: option.splits)

lemma Create_run:
  assumes "is_ident (tName p)" and "fail E = None"
  shows "Create N p E s d =
     (case d (fold_ident (tName p)) of
        None \<Rightarrow> (Some (DBError undefined_table), d)
      | Some tb \<Rightarrow>
          if ID s \<in> set (map row_id (rows tb))
          then (if fold_ident (tName p) = tName p then Some ErrDuplicateID
                else Some (DBError (unique_violation (fold_ident (tName p)))), d)
          else (None, d(fold_ident (tName p) \<mapsto> tb\<lparr>rows := rows tb @ [session_row N s]\<rparr>)))"
proof -
  have ex: "ExecContext E d (''INSERT INTO '' @ tName p @ '' VALUES ($1, $2, $3, $4, $5, $6, $7);'')
      [VTime (CreatedAt s), VTime (ExpiresAt s), VText (ID s), VText (UserKey s),
       Value (setNullString (IP_String N (IP s))),
       Value (setNullString (OS (Agent s))),
       Value (setNullString (Browser (Agent s)))] =
     (case d (fold_ident (tName p)) of
      None \<Rightarrow> (Some undefined_table, d)
    | Some tb \<Rightarrow>
        if ID s \<in> set (map row_id (rows tb)) then (Some (unique_violation (fold_ident (tName p))), d)
        else (None, d(fold_ident (tName p) \<mapsto> tb\<lparr>rows := rows tb @ [session_row N s]\<rparr>)))"
    by (simp only: ExecContext_def Exec_parsed [OF assms(2) parse_insert [OF assms(1)]]
          Value_setNullString run_insert session_row_def)
  show ?thesis
    by (simp only: Create_def Let_def ex)
       (simp add: undefined_table_def unique_violation_def split: option.splits)
qed

lemma matches_fun: "matches clock args cs = (\<lambda>r. list_all (holds clock args r) cs)"
  by (rule ext) (simp add: matches_def)

lemmas run_defs = run_stmt_def nparams_def operand_index_def cond_operand_def cond_ok_def
  column_type_def session_columns_def operand_val_def matches_fun holds_def cell_def

lemma run_delete_id:
  "run_stmt clock (Delete t [Cond ''id'' Eq (Param 1)]) [VText i] d =
   (case d t of
      None \<Rightarrow> (Some undefined_table, d)
    | Some tb \<Rightarrow> (None, d(t \<mapsto> tb\<lparr>rows := filter (\<lambda>r. row_id r \<noteq> i) (rows tb)\<rparr>)))"
  by (simp add: run_defs split: option.splits)

lemma run_delete_key:
  "run_stmt clock (Delete t [Cond ''user_key'' Eq (Param 1)]) [VText k] d =
   (case d t of
      None \<Rightarrow> (Some undefined_table, d)
    | Some tb \<Rightarrow> (None, d(t \<mapsto> tb\<lparr>rows := filter (\<lambda>r. user_key r \<noteq> k) (rows tb)\<rparr>)))"
  by (simp add: run_defs split: option.splits)

lemma run_delete_key_except:
  "run_stmt clock (Delete t [Cond ''user_key'' Eq (Param 1), Cond ''id'' NeAll (Param 2)])
     ([VText k] @ [VTextArray ex]) d =
   (case d t of
      None \<Rightarrow> (Some undefined_table, d)
    | Some tb \<Rightarrow>
        (None, d(t \<mapsto> tb\<lparr>rows := filter (\<lambda>r. \<not> (user_key r = k \<and> row_id r \<notin> set ex)) (rows tb)\<rparr>)))"
  by (simp add: run_defs split: option.splits)


lemma run_create_table:
  "run_stmt clock (CreateTable True t session_columns) [] d =
   (case d t of
      None \<Rightarrow> (None, d(t \<mapsto> \<lparr>rows = [], indexes = [(t @ ''_pkey'', [''id''])]\<rparr>))
    | Some tb \<Rightarrow> (None, d))"
  by (simp add: run_stmt_def nparams_def pkey_indexes_def is_pkey_def session_columns_def
        split: option.splits)

lemma cursor_healthy: "healthy E \<Longrightarrow> cursor E rs = \<lparr>items = map Inr rs, Err = None\<rparr>"
  by (simp add: healthy_def cursor_def)

lemma Query_parsed:
  "fail E = None \<Longrightarrow> parse q = Some (Select t cs) \<Longrightarrow>
   QueryContext E d q args =
     (case fst (run_stmt (now E) (Select t cs) args d) of
        Some e \<Rightarrow> Inl e
      | None \<Rightarrow>
          (case d t of
             None \<Rightarrow> Inl undefined_table
           | Some tb \<Rightarrow> Inr (cursor E (filter (matches (now E) args cs) (rows tb)))))"
  by (simp add: QueryContext_def)

lemma Query_failed: "fail E = Some e \<Longrightarrow> QueryContext E d q args = Inl e"
  by (simp add: QueryContext_def)

lemma select_id:
  "(case fst (run_stmt clock (Select t [Cond ''id'' Eq (Param 1), Cond ''expires_at'' Gt CURRENT_TIMESTAMP]) [VText i] d) of
        Some e \<Rightarrow> Inl e
      | None \<Rightarrow>
          (case d t of
             None \<Rightarrow> Inl undefined_table
           | Some tb \<Rightarrow> Inr (cursor E (filter (matches clock [VText i] [Cond ''id'' Eq (Param 1), Cond ''expires_at'' Gt CURRENT_TIMESTAMP]) (rows tb))))) =
   (case d t of
      None \<Rightarrow> Inl undefined_table
    | Some tb \<Rightarrow> Inr (cursor E (filter (\<lambda>r. row_id r = i \<and> clock < expires_at r) (rows tb))))"
  by (simp add: run_defs split: option.splits)

lemma select_key:
  "(case fst (run_stmt clock (Select t [Cond ''user_key'' Eq (Param 1)]) [VText k] d) of
        Some e \<Rightarrow> Inl e
      | None \<Rightarrow>
          (case d t of
             None \<Rightarrow> Inl undefined_table
           | Some tb \<Rightarrow> Inr (cursor E (filter (matches clock [VText k] [Cond ''user_key'' Eq (Param 1)]) (rows tb))))) =
   (case d t of
      None \<Rightarrow> Inl undefined_table
    | Some tb \<Rightarrow> Inr (cursor E (filter (\<lambda>r. user_key r = k) (rows tb))))"
  by (simp add: run_defs split: option.splits)

lemma Query_select_id:
  assumes "is_ident t" and "fail E = None"
  shows "QueryContext E d
       (''SELECT * FROM '' @ t @ '' WHERE id = $1 AND expires_at > CURRENT_TIMESTAMP;'') [VText i] =
     (case d (fold_ident t) of
        None \<Rightarrow> Inl undefined_table
      | Some tb \<Rightarrow> Inr (cursor E (filter (\<lambda>r. row_id r = i \<and> now E < expires_at r) (rows tb))))"
  by (simp only: Query_parsed [OF assms(2) parse_select_id [OF assms(1)]] select_id)

lemma Query_select_key:
  assumes "is_ident t" and "fail E = None"
  shows "QueryContext E d (''SELECT * FROM '' @ t @ '' WHERE user_key = $1;'') [VText k] =
     (case d (fold_ident t) of
        None \<Rightarrow> Inl undefined_table
      | Some tb \<Rightarrow> Inr (cursor E (filter (\<lambda>r. user_key r = k) (rows tb))))"
  by (simp only: Query_parsed [OF assms(2) parse_select_key [OF assms(1)]] select_key)

lemma decode_row:
  "(case Scan w zero_Session of
        (s, ip, os, browser) \<Rightarrow>
          (let s1 = (if Valid ip then s\<lparr>IP := ParseIP N (String ip)\<rparr> else s);
               s2 = s1\<lparr>Agent := (Agent s1)\<lparr>OS := String os\<rparr>\<rparr>;
               s3 = s2\<lparr>Agent := (Agent s2)\<lparr>Browser := String browser\<rparr>\<rparr>
           in f s3)) = f (row_session N w)"
  by (simp add: Scan_def zero_Session_def scan_NullString_def row_session_def Let_def
        split: option.splits)

lemma loop_all_rows:
  "FetchByUserKey_loop N (map Inr rs) ss = Inr (ss @ map (row_session N) rs)"
proof (induction rs arbitrary: ss)
  case Nil
  show ?case by simp
next
  case (Cons r rs)
  have "FetchByUserKey_loop N (map Inr (r # rs)) ss =
        FetchByUserKey_loop N (map Inr rs) (ss @ [row_session N r])"
    by (simp only: list.map FetchByUserKey_loop.simps decode_row)
  then show ?case by (simp add: Cons.IH)
qed

lemma sessions_ident: "is_ident ''sessions'' \<and> fold_ident ''sessions'' = ''sessions''"
  by code_simp

lemma absent_never_nil: "absent x \<noteq> Some ''<nil>'' \<and> absent x \<noteq> Some []"
  by (simp add: absent_def)

section \<open>Create\<close>

text \<open>
  C10. For every session whose IP is nil, \<^verbatim>\<open>Create\<close> stores the ip column as
  \<^verbatim>\<open>NULL\<close>: \<^verbatim>\<open>setNullString\<close> treats the text \<^verbatim>\<open><nil>\<close>, the rendering of a nil
  IP, as absent, like the empty string, and so the text \<^verbatim>\<open><nil>\<close> is never stored
  in the ip column. Here \<^verbatim>\<open>Create\<close> is a call that reaches the server, on an
  existing table, with an id that is not taken: it succeeds and appends the row
  \<open>session_row N s\<close>.
\<close>

theorem Create_nil_IP_is_NULL:
  assumes "is_ident (tName p)"
    and "d (fold_ident (tName p)) = Some tb"
    and "fail E = None"
    and "ID s \<notin> set (map row_id (rows tb))"
  shows "Create N p E s d =
           (None, d(fold_ident (tName p) \<mapsto> tb\<lparr>rows := rows tb @ [session_row N s]\<rparr>))
         \<and> (IP s = [] \<longrightarrow> row_ip (session_row N s) = None)
         \<and> row_ip (session_row N s) \<noteq> Some ''<nil>''
         \<and> Value (setNullString ''<nil>'') = VNull
         \<and> Value (setNullString []) = VNull"
proof -
  have "Create N p E s d =
          (None, d(fold_ident (tName p) \<mapsto> tb\<lparr>rows := rows tb @ [session_row N s]\<rparr>))"
    using assms by (simp add: Create_run)
  moreover have "IP s = [] \<longrightarrow> row_ip (session_row N s) = None"
    by (simp add: session_row_def IP_String_def absent_def)
  moreover have "row_ip (session_row N s) \<noteq> Some ''<nil>''"
    by (simp add: session_row_def absent_never_nil)
  moreover have "Value (setNullString ''<nil>'') = VNull \<and> Value (setNullString []) = VNull"
    by (simp add: Value_def setNullString_def zero_NullString_def)
  ultimately show ?thesis by blast
qed

text \<open>The theorem at the example session, whose IP is nil.\<close>

theorem Create_nil_IP_is_NULL_witness:
  "Create example_net example_store (at_time 10) example_session example_db =
     (None, example_db(''sessions'' \<mapsto>
        example_table\<lparr>rows := rows example_table @ [session_row example_net example_session]\<rparr>))
   \<and> row_ip (session_row example_net example_session) = None"
proof -
  have a: "is_ident (tName example_store)"
    by (simp add: example_store_def sessions_ident)
  have b: "example_db (fold_ident (tName example_store)) = Some example_table"
    by (simp add: example_store_def sessions_ident example_db_def)
  have c: "fail (at_time 10) = None"
    by (simp add: at_time_def)
  have d: "ID example_session \<notin> set (map row_id (rows example_table))"
    by (simp add: example_session_def example_table_def example_row_def)
  have e: "IP example_session = []"
    by (simp add: example_session_def)
  from e Create_nil_IP_is_NULL [where p = example_store and d = example_db
      and tb = example_table and E = "at_time 10" and s = example_session
      and N = example_net, OF a b c d]
  show ?thesis
    by (simp add: example_store_def sessions_ident)
qed

section \<open>FetchByID\<close>

lemma first_of_filter:
  "(case filter P xs of [] \<Rightarrow> a | x # ys \<Rightarrow> f x) = (case find P xs of None \<Rightarrow> a | Some x \<Rightarrow> f x)"
  by (induction xs) simp_all

lemma decode_found:
  "(case Scan w zero_Session of
        (s, ip, os, browser) \<Rightarrow>
          (let s1 = (if Valid ip then s\<lparr>IP := ParseIP N (String ip)\<rparr> else s);
               s2 = s1\<lparr>Agent := (Agent s1)\<lparr>OS := String os\<rparr>\<rparr>;
               s3 = s2\<lparr>Agent := (Agent s2)\<lparr>Browser := String browser\<rparr>\<rparr>
           in (s3, True, None))) = (row_session N w, True, None)"
  by (rule decode_row [where f = "\<lambda>s. (s, True, None)"])

lemma FetchByID_run:
  assumes "is_ident (tName p)" and "healthy E" and "d (fold_ident (tName p)) = Some tb"
  shows "FetchByID N p E i d =
     (case find (\<lambda>r. row_id r = i \<and> now E < expires_at r) (rows tb) of
        None \<Rightarrow> (zero_Session, False, None)
      | Some r \<Rightarrow> (row_session N r, True, None))"
proof -
  have f: "fail E = None" using assms(2) by (simp add: healthy_def)
  have q: "QueryRowContext E d
       (''SELECT * FROM '' @ tName p @ '' WHERE id = $1 AND expires_at > CURRENT_TIMESTAMP;'')
       [VText i] =
     Inr \<lparr>items = map Inr (filter (\<lambda>r. row_id r = i \<and> now E < expires_at r) (rows tb)),
          Err = None\<rparr>"
    by (simp only: QueryRowContext_def Query_select_id [OF assms(1) f] assms(3) option.case
          cursor_healthy [OF assms(2)])
  show ?thesis
  proof (cases "filter (\<lambda>r. row_id r = i \<and> now E < expires_at r) (rows tb)")
    case Nil
    then have "find (\<lambda>r. row_id r = i \<and> now E < expires_at r) (rows tb) = None"
      by (simp add: find_None_iff filter_empty_conv)
    moreover have "FetchByID N p E i d = (zero_Session, False, None)"
      by (simp only: FetchByID_def Let_def q Nil) (simp add: Row_Scan_def)
    ultimately show ?thesis by simp
  next
    case (Cons r rs)
    have "(case filter (\<lambda>r. row_id r = i \<and> now E < expires_at r) (rows tb) of
             [] \<Rightarrow> None | x # ys \<Rightarrow> Some x) = Some r"
      by (simp add: Cons)
    then have "find (\<lambda>r. row_id r = i \<and> now E < expires_at r) (rows tb) = Some r"
      by (simp add: first_of_filter [where f = Some and a = None] split: option.splits)
    moreover have "Row_Scan (Inr \<lparr>items = map Inr (r # rs), Err = None\<rparr>) = Inr r"
      by (simp add: Row_Scan_def)
    then have "FetchByID N p E i d = (row_session N r, True, None)"
      by (simp only: FetchByID_def Let_def q Cons sum.case decode_found [unfolded Let_def])
    ultimately show ?thesis by simp
  qed
qed




lemma find_app:
  "find P (xs @ ys) = (case find P xs of None \<Rightarrow> find P ys | Some x \<Rightarrow> Some x)"
  by (induction xs) simp_all



lemma example_store_ident:
  "is_ident (tName example_store) \<and> fold_ident (tName example_store) = ''sessions''"
  by (simp add: example_store_def sessions_ident)

lemma example_db_sessions: "example_db (fold_ident (tName example_store)) = Some example_table"
  by (simp add: example_store_ident example_db_def)


section \<open>Create, then FetchByID\<close>

text \<open>
  C1. For every session whose optional fields are empty (a nil IP, an empty agent OS
  and an empty agent browser), a successful \<^verbatim>\<open>Create\<close> stores \<^verbatim>\<open>NULL\<close> in the
  three columns, not an empty text, and a following \<^verbatim>\<open>FetchByID\<close> on the session's
  id, while the session is active, finds it and decodes the three columns back to the
  empty values.
\<close>

theorem Create_FetchByID_absent:
  assumes "is_ident (tName p)"
    and "d (fold_ident (tName p)) = Some tb"
    and "fail E = None"
    and "ID s \<notin> set (map row_id (rows tb))"
    and "IP s = []" and "OS (Agent s) = []" and "Browser (Agent s) = []"
    and "healthy E'" and "now E' < ExpiresAt s"
  shows "Create N p E s d =
           (None, d(fold_ident (tName p) \<mapsto> tb\<lparr>rows := rows tb @
              [\<lparr>created_at = CreatedAt s, expires_at = ExpiresAt s, row_id = ID s,
                user_key = UserKey s, row_ip = None, agent_os = None,
                agent_browser = None\<rparr>]\<rparr>))
         \<and> snd (FetchByID N p E' (ID s) (snd (Create N p E s d))) = (True, None)
         \<and> ID (fst (FetchByID N p E' (ID s) (snd (Create N p E s d)))) = ID s
         \<and> IP (fst (FetchByID N p E' (ID s) (snd (Create N p E s d)))) = []
         \<and> OS (Agent (fst (FetchByID N p E' (ID s) (snd (Create N p E s d))))) = []
         \<and> Browser (Agent (fst (FetchByID N p E' (ID s) (snd (Create N p E s d))))) = []"
proof -
  let ?r = "\<lparr>created_at = CreatedAt s, expires_at = ExpiresAt s, row_id = ID s,
             user_key = UserKey s, row_ip = None, agent_os = None, agent_browser = None\<rparr>"
  let ?t = "tb\<lparr>rows := rows tb @ [?r]\<rparr>"
  let ?d = "d(fold_ident (tName p) \<mapsto> ?t)"
  have row: "session_row N s = ?r"
    using assms(5-7) by (simp add: session_row_def IP_String_def absent_def)
  have create: "Create N p E s d = (None, ?d)"
    using assms(1-4) by (simp add: Create_run row)
  have fresh: "find (\<lambda>r. row_id r = ID s \<and> now E' < expires_at r) (rows tb) = None"
  proof -
    have "\<And>r. r \<in> set (rows tb) \<Longrightarrow> row_id r \<noteq> ID s"
      using assms(4) by (metis image_eqI set_map)
    then show ?thesis unfolding find_None_iff by blast
  qed
  have first: "find (\<lambda>r. row_id r = ID s \<and> now E' < expires_at r) (rows ?t) = Some ?r"
    using fresh assms(9) by (simp add: find_app)
  have "?d (fold_ident (tName p)) = Some ?t" by simp
  from FetchByID_run [where d = ?d and p = p and N = N and i = "ID s",
      OF assms(1) assms(8) this] first
  have "FetchByID N p E' (ID s) ?d = (row_session N ?r, True, None)" by simp
  then show ?thesis by (simp add: create row_session_def)
qed

text \<open>The theorem at the example session, created at time 10 and fetched at time 15.\<close>

theorem Create_FetchByID_absent_witness:
  "fst (Create example_net example_store (at_time 10) example_session example_db) = None
   \<and> snd (FetchByID example_net example_store (at_time 15) ''id5''
        (snd (Create example_net example_store (at_time 10) example_session example_db))) =
       (True, None)
   \<and> IP (fst (FetchByID example_net example_store (at_time 15) ''id5''
        (snd (Create example_net example_store (at_time 10) example_session example_db)))) = []"
proof -
  have a: "is_ident (tName example_store)" by (simp add: example_store_ident)
  have c: "fail (at_time 10) = None" by (simp add: at_time_def)
  have d: "ID example_session \<notin> set (map row_id (rows example_table))"
    by (simp add: example_session_def example_table_def example_row_def)
  have e: "IP example_session = []" "OS (Agent example_session) = []"
    "Browser (Agent example_session) = []"
    by (simp_all add: example_session_def)
  have h: "healthy (at_time 15)" by (simp add: healthy_def at_time_def)
  have n: "now (at_time 15) < ExpiresAt example_session"
    by (simp add: at_time_def example_session_def)
  have i: "ID example_session = ''id5''" by (simp add: example_session_def)
  note th = Create_FetchByID_absent [where N = example_net and p = example_store
      and d = example_db and E = "at_time 10" and E' = "at_time 15"
      and s = example_session, OF a example_db_sessions c d e h n, unfolded i]
  have "fst (Create example_net example_store (at_time 10) example_session example_db) = None"
    using th [THEN conjunct1] by simp
  moreover have "snd (FetchByID example_net example_store (at_time 15) ''id5''
        (snd (Create example_net example_store (at_time 10) example_session example_db))) =
       (True, None)"
    using th by blast
  moreover have "IP (fst (FetchByID example_net example_store (at_time 15) ''id5''
        (snd (Create example_net example_store (at_time 10) example_session example_db)))) = []"
    using th by blast
  ultimately show ?thesis by blast
qed

section \<open>DeleteByUserKey\<close>

lemma DeleteByUserKey_run:
  assumes "is_ident (tName p)" and "fail E = None"
  shows "DeleteByUserKey p E key expID d =
     (case d (fold_ident (tName p)) of
        None \<Rightarrow> (Some (DBError undefined_table), d)
      | Some tb \<Rightarrow>
          (None, d(fold_ident (tName p) \<mapsto>
             tb\<lparr>rows := filter (\<lambda>r. \<not> (user_key r = key \<and> row_id r \<notin> set expID)) (rows tb)\<rparr>)))"
proof (cases "0 < length expID")
  case True
  have ex: "ExecContext E d (''DELETE FROM '' @ tName p @ '' WHERE user_key = $1 AND id != ALL ($2);'')
          ([VText key] @ [VTextArray expID]) =
        (case d (fold_ident (tName p)) of
           None \<Rightarrow> (Some undefined_table, d)
         | Some tb \<Rightarrow>
             (None, d(fold_ident (tName p) \<mapsto>
                tb\<lparr>rows := filter (\<lambda>r. \<not> (user_key r = key \<and> row_id r \<notin> set expID)) (rows tb)\<rparr>)))"
    by (simp only: ExecContext_def Exec_parsed [OF assms(2) parse_delete_key_except [OF assms(1)]]
          run_delete_key_except)
  show ?thesis
    by (simp only: DeleteByUserKey_def Let_def True if_True ex) (simp split: option.splits)
next
  case False
  then have e: "set expID = {}" by simp
  have ex: "ExecContext E d (''DELETE FROM '' @ tName p @ '' WHERE user_key = $1;'') [VText key] =
        (case d (fold_ident (tName p)) of
           None \<Rightarrow> (Some undefined_table, d)
         | Some tb \<Rightarrow>
             (None, d(fold_ident (tName p) \<mapsto>
                tb\<lparr>rows := filter (\<lambda>r. user_key r \<noteq> key) (rows tb)\<rparr>)))"
    by (simp only: ExecContext_def Exec_parsed [OF assms(2) parse_delete_key [OF assms(1)]]
          run_delete_key)
  show ?thesis
    by (simp only: DeleteByUserKey_def Let_def False if_False ex) (simp add: e split: option.splits)
qed


text \<open>
  C5. For every user key and every list of exception ids, empty or not, a
  \<^verbatim>\<open>DeleteByUserKey\<close> that reaches the server removes from the store's table exactly
  the rows whose user key is the given one and whose id is not in the list, and leaves
  every other row, and every other table, as it is; with an empty list it removes all
  rows of the user key.
\<close>

theorem DeleteByUserKey_exact:
  assumes "is_ident (tName p)"
    and "d (fold_ident (tName p)) = Some tb"
    and "fail E = None"
  shows "DeleteByUserKey p E key expID d =
           (None, d(fold_ident (tName p) \<mapsto>
              tb\<lparr>rows := filter (\<lambda>r. \<not> (user_key r = key \<and> row_id r \<notin> set expID)) (rows tb)\<rparr>))
         \<and> (expID = [] \<longrightarrow>
              DeleteByUserKey p E key expID d =
                (None, d(fold_ident (tName p) \<mapsto>
                   tb\<lparr>rows := filter (\<lambda>r. user_key r \<noteq> key) (rows tb)\<rparr>)))"
  using assms by (simp add: DeleteByUserKey_run)

lemma example_rows_except:
  "filter (\<lambda>r. \<not> (user_key r = ''key'' \<and> row_id r \<notin> set [''id2''])) (rows example_table) =
     [example_row ''id2'' ''key'' 20, example_row ''id4'' ''other'' 40]"
  by (simp add: example_table_def example_row_def)

lemma example_rows_all:
  "filter (\<lambda>r. user_key r \<noteq> ''key'') (rows example_table) = [example_row ''id4'' ''other'' 40]"
  by (simp add: example_table_def example_row_def)

text \<open>
  The theorem at the example table: with the exception \<^verbatim>\<open>id2\<close> the rows \<^verbatim>\<open>id1\<close> and
  \<^verbatim>\<open>id3\<close> go, without exceptions all three rows of the user go; the other user's row
  stays.
\<close>

theorem DeleteByUserKey_exact_witness:
  "DeleteByUserKey example_store (at_time 10) ''key'' [''id2''] example_db =
     (None, example_db(''sessions'' \<mapsto>
        example_table\<lparr>rows := [example_row ''id2'' ''key'' 20, example_row ''id4'' ''other'' 40]\<rparr>))
   \<and> DeleteByUserKey example_store (at_time 10) ''key'' [] example_db =
     (None, example_db(''sessions'' \<mapsto>
        example_table\<lparr>rows := [example_row ''id4'' ''other'' 40]\<rparr>))"
proof -
  have a: "is_ident (tName example_store)" by (simp add: example_store_ident)
  have c: "fail (at_time 10) = None" by (simp add: at_time_def)
  note one = DeleteByUserKey_exact [where p = example_store and d = example_db
      and E = "at_time 10" and key = "''key''" and expID = "[''id2'']",
      OF a example_db_sessions c, THEN conjunct1]
  note two = DeleteByUserKey_exact [where p = example_store and d = example_db
      and E = "at_time 10" and key = "''key''" and expID = "[]",
      OF a example_db_sessions c, THEN conjunct2]
  from one two show ?thesis
    by (simp only: example_rows_except example_rows_all example_store_ident simp_thms)
qed

section \<open>FetchByUserKey\<close>

lemma FetchByUserKey_cursor:
  assumes "is_ident (tName p)" and "fail E = None" and "d (fold_ident (tName p)) = Some tb"
  shows "FetchByUserKey N p E key d =
     (case FetchByUserKey_loop N (items (cursor E (filter (\<lambda>r. user_key r = key) (rows tb)))) [] of
        Inl e \<Rightarrow> ([], Some (DBError e))
      | Inr ss \<Rightarrow>
          (case Err (cursor E (filter (\<lambda>r. user_key r = key) (rows tb))) of
             Some e \<Rightarrow> ([], Some (DBError e))
           | None \<Rightarrow> (ss, None)))"
  by (simp only: FetchByUserKey_def Let_def Query_select_key [OF assms(1) assms(2)] assms(3)
        option.case sum.case)

lemma FetchByUserKey_run:
  assumes "is_ident (tName p)" and "healthy E" and "d (fold_ident (tName p)) = Some tb"
  shows "FetchByUserKey N p E key d =
     (map (row_session N) (filter (\<lambda>r. user_key r = key) (rows tb)), None)"
proof -
  have f: "fail E = None" using assms(2) by (simp add: healthy_def)
  show ?thesis
    by (simp only: FetchByUserKey_cursor [where p = p and d = d, OF assms(1) f assms(3)]
          cursor_healthy [OF assms(2)])
       (simp add: loop_all_rows)
qed

lemma FetchByUserKey_failed:
  assumes "fail E = Some e"
  shows "FetchByUserKey N p E key d =
     (if e = ErrNoRows then ([], None) else ([], Some (DBError e)))"
  by (simp only: FetchByUserKey_def Let_def Query_failed [OF assms]) simp

lemma FetchByUserKey_no_partial:
  "snd (FetchByUserKey N p E key d) \<noteq> None \<Longrightarrow> fst (FetchByUserKey N p E key d) = []"
  by (simp only: FetchByUserKey_def Let_def) (auto split: sum.splits option.splits if_splits)

lemma loop_scan_error:
  "FetchByUserKey_loop N (map Inr rs @ Inl e # xs) ss = Inl e"
proof (induction rs arbitrary: ss)
  case Nil
  show ?case by simp
next
  case (Cons r rs)
  have "FetchByUserKey_loop N (map Inr (r # rs) @ Inl e # xs) ss =
        FetchByUserKey_loop N (map Inr rs @ Inl e # xs) (ss @ [row_session N r])"
    by (simp only: list.map append_Cons FetchByUserKey_loop.simps decode_row)
  then show ?case by (simp add: Cons.IH)
qed

lemma update_split:
  "k < length rs \<Longrightarrow>
   (map Inr rs)[k := Inl e] = map Inr (take k rs) @ Inl e # map Inr (drop (Suc k) rs)"
  by (simp add: upd_conv_take_nth_drop take_map drop_map)

text \<open>
  C4. For every user key, a \<^verbatim>\<open>FetchByUserKey\<close> that meets no failure returns the
  session of every stored row whose user key is the given one, in the order of the
  table; neither the clock nor \<^verbatim>\<open>expires_at\<close> has a part in the selection, so expired
  rows are returned like active ones.
\<close>

theorem FetchByUserKey_all:
  assumes "is_ident (tName p)"
    and "d (fold_ident (tName p)) = Some tb"
    and "healthy E"
  shows "FetchByUserKey N p E key d =
           (map (row_session N) (filter (\<lambda>r. user_key r = key) (rows tb)), None)"
  using assms by (simp add: FetchByUserKey_run)

lemma example_rows_key:
  "filter (\<lambda>r. user_key r = ''key'') (rows example_table) =
     [example_row ''id1'' ''key'' 5, example_row ''id2'' ''key'' 20, example_row ''id3'' ''key'' 30]"
  by (simp add: example_table_def example_row_def)

text \<open>The theorem at the example table at time 10, where \<^verbatim>\<open>id1\<close> has expired.\<close>

theorem FetchByUserKey_all_witness:
  "FetchByUserKey example_net example_store (at_time 10) ''key'' example_db =
     ([row_session example_net (example_row ''id1'' ''key'' 5),
       row_session example_net (example_row ''id2'' ''key'' 20),
       row_session example_net (example_row ''id3'' ''key'' 30)], None)
   \<and> expires_at (example_row ''id1'' ''key'' 5) < now (at_time 10)"
proof -
  have a: "is_ident (tName example_store)" by (simp add: example_store_ident)
  have h: "healthy (at_time 10)" by (simp add: healthy_def at_time_def)
  have "expires_at (example_row ''id1'' ''key'' 5) < now (at_time 10)"
    by (simp add: example_row_def at_time_def)
  with FetchByUserKey_all [where p = example_store and d = example_db and E = "at_time 10"
      and N = example_net and key = "''key''", OF a example_db_sessions h]
  show ?thesis by (simp only: example_rows_key) simp
qed


lemma FetchByUserKey_scan_failed:
  assumes "is_ident (tName p)" and "d (fold_ident (tName p)) = Some tb"
    and "fail E = None" and "next_fail E = None" and "scan_fail E = Some (k, e)"
    and "k < length (filter (\<lambda>r. user_key r = key) (rows tb))"
  shows "FetchByUserKey N p E key d = ([], Some (DBError e))"
proof -
  let ?rs = "filter (\<lambda>r. user_key r = key) (rows tb)"
  have "items (cursor E ?rs) = map Inr (take k ?rs) @ Inl e # map Inr (drop (Suc k) ?rs)"
    using assms(4-6) by (simp add: cursor_def update_split)
  then have "FetchByUserKey_loop N (items (cursor E ?rs)) [] = Inl e"
    by (simp only: loop_scan_error)
  then show ?thesis
    by (simp only: FetchByUserKey_cursor [where p = p and d = d, OF assms(1) assms(3) assms(2)]
          sum.case)
qed

lemma FetchByUserKey_next_failed:
  assumes "is_ident (tName p)" and "d (fold_ident (tName p)) = Some tb"
    and "fail E = None" and "scan_fail E = None" and "next_fail E = Some (k, e)"
  shows "FetchByUserKey N p E key d = ([], Some (DBError e))"
proof -
  let ?rs = "filter (\<lambda>r. user_key r = key) (rows tb)"
  have c: "cursor E ?rs = \<lparr>items = map Inr (take k ?rs), Err = Some e\<rparr>"
    using assms(4,5) by (simp add: cursor_def take_map)
  show ?thesis
    by (simp only: FetchByUserKey_cursor [where p = p and d = d, OF assms(1) assms(3) assms(2)] c)
       (simp add: loop_all_rows)
qed

text \<open>
  C9, as amended. \<^verbatim>\<open>FetchByUserKey\<close> returns a nil error and an empty sequence when
  no row has the user key. It returns the error, and no sequence, when the query fails
  with an error other than \<^verbatim>\<open>sql.ErrNoRows\<close>, when the \<^verbatim>\<open>Scan\<close> of a row fails, and
  when \<^verbatim>\<open>Rows.Err\<close> reports an error after the loop; whenever its error is not nil
  its sequence is empty. A query that fails with \<^verbatim>\<open>sql.ErrNoRows\<close> gives a nil error
  and an empty sequence.
\<close>

theorem FetchByUserKey_failures:
  assumes "is_ident (tName p)" and "d (fold_ident (tName p)) = Some tb"
  shows "(healthy E \<and> filter (\<lambda>r. user_key r = key) (rows tb) = [] \<longrightarrow>
            FetchByUserKey N p E key d = ([], None))
         \<and> (\<forall>e. fail E = Some e \<longrightarrow>
               FetchByUserKey N p E key d =
                 (if e = ErrNoRows then ([], None) else ([], Some (DBError e))))
         \<and> (\<forall>k e. fail E = None \<and> next_fail E = None \<and> scan_fail E = Some (k, e)
                  \<and> k < length (filter (\<lambda>r. user_key r = key) (rows tb)) \<longrightarrow>
               FetchByUserKey N p E key d = ([], Some (DBError e)))
         \<and> (\<forall>k e. fail E = None \<and> scan_fail E = None \<and> next_fail E = Some (k, e) \<longrightarrow>
               FetchByUserKey N p E key d = ([], Some (DBError e)))
         \<and> (snd (FetchByUserKey N p E key d) \<noteq> None \<longrightarrow>
               fst (FetchByUserKey N p E key d) = [])"
proof -
  have one: "healthy E \<and> filter (\<lambda>r. user_key r = key) (rows tb) = [] \<longrightarrow>
      FetchByUserKey N p E key d = ([], None)"
    using assms by (simp add: FetchByUserKey_run)
  have two: "\<forall>e. fail E = Some e \<longrightarrow> FetchByUserKey N p E key d =
      (if e = ErrNoRows then ([], None) else ([], Some (DBError e)))"
    using FetchByUserKey_failed by blast
  have three: "\<forall>k e. fail E = None \<and> next_fail E = None \<and> scan_fail E = Some (k, e)
      \<and> k < length (filter (\<lambda>r. user_key r = key) (rows tb)) \<longrightarrow>
      FetchByUserKey N p E key d = ([], Some (DBError e))"
    using FetchByUserKey_scan_failed [where p = p and d = d, OF assms] by blast
  have four: "\<forall>k e. fail E = None \<and> scan_fail E = None \<and> next_fail E = Some (k, e) \<longrightarrow>
      FetchByUserKey N p E key d = ([], Some (DBError e))"
    using FetchByUserKey_next_failed [where p = p and d = d, OF assms] by blast
  have five: "snd (FetchByUserKey N p E key d) \<noteq> None \<longrightarrow>
      fst (FetchByUserKey N p E key d) = []"
    using FetchByUserKey_no_partial by blast
  from one two three four five show ?thesis by blast
qed

text \<open>
  The theorem at the example table: a user with no rows, a bad connection, a failing
  \<^verbatim>\<open>Scan\<close> of the second row, a cursor that breaks after two rows.
\<close>

theorem FetchByUserKey_failures_witness:
  "FetchByUserKey example_net example_store (at_time 10) ''nobody'' example_db = ([], None)
   \<and> FetchByUserKey example_net example_store (failing (OtherError ''bad connection''))
        ''key'' example_db = ([], Some (DBError (OtherError ''bad connection'')))
   \<and> FetchByUserKey example_net example_store
        \<lparr>now = 10, fail = None, scan_fail = Some (1, OtherError ''scan''), next_fail = None\<rparr>
        ''key'' example_db = ([], Some (DBError (OtherError ''scan'')))
   \<and> FetchByUserKey example_net example_store
        \<lparr>now = 10, fail = None, scan_fail = None, next_fail = Some (2, OtherError ''reset'')\<rparr>
        ''key'' example_db = ([], Some (DBError (OtherError ''reset'')))"
proof -
  have a: "is_ident (tName example_store)" by (simp add: example_store_ident)
  have h: "healthy (at_time 10)" by (simp add: healthy_def at_time_def)
  have n: "filter (\<lambda>r. user_key r = ''nobody'') (rows example_table) = []"
    by (simp add: example_table_def example_row_def)
  have one: "FetchByUserKey example_net example_store (at_time 10) ''nobody'' example_db = ([], None)"
    using FetchByUserKey_failures [where p = example_store and d = example_db
      and E = "at_time 10" and N = example_net and key = "''nobody''",
      OF a example_db_sessions] h n by blast
  have "fail (failing (OtherError ''bad connection'')) = Some (OtherError ''bad connection'')"
    by (simp add: failing_def)
  with FetchByUserKey_failures [where p = example_store and d = example_db
      and E = "failing (OtherError ''bad connection'')" and N = example_net
      and key = "''key''", OF a example_db_sessions, THEN conjunct2, THEN conjunct1]
  have two: "FetchByUserKey example_net example_store (failing (OtherError ''bad connection''))
        ''key'' example_db = ([], Some (DBError (OtherError ''bad connection'')))"
    by simp
  have l: "(1::nat) < length (filter (\<lambda>r. user_key r = ''key'') (rows example_table))"
    by (simp add: example_rows_key)
  have three: "FetchByUserKey example_net example_store
        \<lparr>now = 10, fail = None, scan_fail = Some (1, OtherError ''scan''), next_fail = None\<rparr>
        ''key'' example_db = ([], Some (DBError (OtherError ''scan'')))"
    using FetchByUserKey_failures [where p = example_store and d = example_db
      and E = "\<lparr>now = 10, fail = None, scan_fail = Some (1, OtherError ''scan''),
                 next_fail = None\<rparr>"
      and N = example_net and key = "''key''", OF a example_db_sessions,
      THEN conjunct2, THEN conjunct2, THEN conjunct1] l
    by simp
  have four: "FetchByUserKey example_net example_store
        \<lparr>now = 10, fail = None, scan_fail = None, next_fail = Some (2, OtherError ''reset'')\<rparr>
        ''key'' example_db = ([], Some (DBError (OtherError ''reset'')))"
    using FetchByUserKey_failures [where p = example_store and d = example_db
      and E = "\<lparr>now = 10, fail = None, scan_fail = None,
                 next_fail = Some (2, OtherError ''reset'')\<rparr>"
      and N = example_net and key = "''key''", OF a example_db_sessions,
      THEN conjunct2, THEN conjunct2, THEN conjunct2, THEN conjunct1]
    by simp
  from one two three four show ?thesis by blast
qed

text \<open>
  C9 as stated fails: the query fails, with the error \<^verbatim>\<open>sql.ErrNoRows\<close>, and the
  error returned is nil.
\<close>

theorem FetchByUserKey_ErrNoRows_counterexample:
  "fail (failing ErrNoRows) = Some ErrNoRows
   \<and> FetchByUserKey example_net example_store (failing ErrNoRows) ''key'' example_db = ([], None)"
  by (simp add: failing_def FetchByUserKey_failed)

section \<open>The errors of Create\<close>

lemma Create_classifies:
  "ExecContext E d (''INSERT INTO '' @ tName p @ '' VALUES ($1, $2, $3, $4, $5, $6, $7);'')
      [VTime (CreatedAt s), VTime (ExpiresAt s), VText (ID s), VText (UserKey s),
       Value (setNullString (IP_String N (IP s))),
       Value (setNullString (OS (Agent s))),
       Value (setNullString (Browser (Agent s)))] = (u, d') \<Longrightarrow>
   Create N p E s d =
     (case u of
        None \<Rightarrow> None
      | Some e \<Rightarrow>
          if \<exists>code. e = PqError code (tName p @ ''_pkey'') then Some ErrDuplicateID
          else Some (DBError e), d')"
  by (simp only: Create_def Let_def) (auto split: option.splits db_error.splits)


lemma Exec_result_unchanged: "Exec E d q args = (u, d') \<Longrightarrow> u \<noteq> None \<Longrightarrow> d' = d"
  using Exec_error_unchanged [of E d q args] by simp

lemma ExecContext_insert:
  assumes "is_ident (tName p)" and "fail E = None"
  shows "ExecContext E d (''INSERT INTO '' @ tName p @ '' VALUES ($1, $2, $3, $4, $5, $6, $7);'')
      [VTime (CreatedAt s), VTime (ExpiresAt s), VText (ID s), VText (UserKey s),
       Value (setNullString (IP_String N (IP s))),
       Value (setNullString (OS (Agent s))),
       Value (setNullString (Browser (Agent s)))] =
     (case d (fold_ident (tName p)) of
      None \<Rightarrow> (Some undefined_table, d)
    | Some tb \<Rightarrow>
        if ID s \<in> set (map row_id (rows tb)) then (Some (unique_violation (fold_ident (tName p))), d)
        else (None, d(fold_ident (tName p) \<mapsto> tb\<lparr>rows := rows tb @ [session_row N s]\<rparr>)))"
  by (simp only: ExecContext_def Exec_parsed [OF assms(2) parse_insert [OF assms(1)]]
        Value_setNullString run_insert session_row_def)

text \<open>
  C2. Let \<open>u\<close> be the error of the \<^verbatim>\<open>ExecContext\<close> call that \<^verbatim>\<open>Create\<close> makes.
  \<^verbatim>\<open>Create\<close> succeeds when \<open>u\<close> is nil; it returns \<^verbatim>\<open>ErrDuplicateID\<close> exactly when
  \<open>u\<close> is a \<^verbatim>\<open>*pq.Error\<close> whose \<^verbatim>\<open>Constraint\<close> is the table name followed by
  \<^verbatim>\<open>_pkey\<close>; it returns every other error unchanged. A failed call leaves the database
  as it was; an insert with an id that is taken fails, with the server's unique
  violation on the primary key of the table, and leaves the existing row as it was.
\<close>

theorem Create_errors:
  assumes "ExecContext E d (''INSERT INTO '' @ tName p @ '' VALUES ($1, $2, $3, $4, $5, $6, $7);'')
      [VTime (CreatedAt s), VTime (ExpiresAt s), VText (ID s), VText (UserKey s),
       Value (setNullString (IP_String N (IP s))),
       Value (setNullString (OS (Agent s))),
       Value (setNullString (Browser (Agent s)))] = (u, d')"
  shows "snd (Create N p E s d) = d'
         \<and> (u = None \<longrightarrow> fst (Create N p E s d) = None)
         \<and> (fst (Create N p E s d) = Some ErrDuplicateID \<longleftrightarrow>
              (\<exists>code. u = Some (PqError code (tName p @ ''_pkey''))))
         \<and> (\<forall>e. u = Some e \<and> \<not> (\<exists>code. e = PqError code (tName p @ ''_pkey'')) \<longrightarrow>
               fst (Create N p E s d) = Some (DBError e))
         \<and> (u \<noteq> None \<longrightarrow> d' = d)
         \<and> (\<forall>tb. is_ident (tName p) \<and> fail E = None
                  \<and> d (fold_ident (tName p)) = Some tb
                  \<and> ID s \<in> set (map row_id (rows tb)) \<longrightarrow>
               u = Some (PqError ''23505'' (fold_ident (tName p) @ ''_pkey'')) \<and> d' = d)"
proof -
  note c = Create_classifies [OF assms]
  have one: "snd (Create N p E s d) = d'" by (simp add: c)
  have two: "u = None \<longrightarrow> fst (Create N p E s d) = None" by (simp add: c)
  have three: "fst (Create N p E s d) = Some ErrDuplicateID \<longleftrightarrow>
      (\<exists>code. u = Some (PqError code (tName p @ ''_pkey'')))"
    by (cases u) (auto simp: c)
  have four: "\<forall>e. u = Some e \<and> \<not> (\<exists>code. e = PqError code (tName p @ ''_pkey'')) \<longrightarrow>
      fst (Create N p E s d) = Some (DBError e)"
    by (auto simp: c)
  have five: "u \<noteq> None \<longrightarrow> d' = d"
    using Exec_result_unchanged [OF assms [unfolded ExecContext_def]] by blast
  have six: "\<forall>tb. is_ident (tName p) \<and> fail E = None
      \<and> d (fold_ident (tName p)) = Some tb
      \<and> ID s \<in> set (map row_id (rows tb)) \<longrightarrow>
      u = Some (PqError ''23505'' (fold_ident (tName p) @ ''_pkey'')) \<and> d' = d"
  proof (intro allI impI)
    fix tb
    assume h: "is_ident (tName p) \<and> fail E = None \<and> d (fold_ident (tName p)) = Some tb
      \<and> ID s \<in> set (map row_id (rows tb))"
    then have "(u, d') = (Some (unique_violation (fold_ident (tName p))), d)"
      by (simp only: assms [symmetric] ExecContext_insert) simp
    then show "u = Some (PqError ''23505'' (fold_ident (tName p) @ ''_pkey'')) \<and> d' = d"
      by (simp add: unique_violation_def)
  qed
  from one two three four five six show ?thesis by blast
qed

text \<open>
  The theorem at the example table: creating a session with the id \<^verbatim>\<open>id2\<close>, which is
  taken, and creating a session on a bad connection.
\<close>

theorem Create_errors_witness:
  "Create example_net example_store (at_time 10) (example_session\<lparr>ID := ''id2''\<rparr>) example_db =
     (Some ErrDuplicateID, example_db)
   \<and> Create example_net example_store (failing (OtherError ''bad connection''))
       example_session example_db =
     (Some (DBError (OtherError ''bad connection'')), example_db)"
proof -
  let ?s = "example_session\<lparr>ID := ''id2''\<rparr>"
  have a: "is_ident (tName example_store)" by (simp add: example_store_ident)
  have c: "fail (at_time 10) = None" by (simp add: at_time_def)
  have m: "ID ?s \<in> set (map row_id (rows example_table))"
    by (simp add: example_table_def example_row_def)
  have n: "tName example_store = ''sessions''" by (simp add: example_store_def)
  have x: "ExecContext (at_time 10) example_db
      (''INSERT INTO '' @ tName example_store @ '' VALUES ($1, $2, $3, $4, $5, $6, $7);'')
      [VTime (CreatedAt ?s), VTime (ExpiresAt ?s), VText (ID ?s), VText (UserKey ?s),
       Value (setNullString (IP_String example_net (IP ?s))),
       Value (setNullString (OS (Agent ?s))),
       Value (setNullString (Browser (Agent ?s)))] =
     (Some (PqError ''23505'' ''sessions_pkey''), example_db)"
    by (simp only: ExecContext_insert [OF a c] example_db_sessions option.case m if_True
          unique_violation_def) (simp add: example_store_ident)
  note t = Create_errors [OF x]
  have "fst (Create example_net example_store (at_time 10) ?s example_db) = Some ErrDuplicateID"
    using t n by simp
  moreover have "snd (Create example_net example_store (at_time 10) ?s example_db) = example_db"
    using t by blast
  ultimately have one: "Create example_net example_store (at_time 10) ?s example_db =
      (Some ErrDuplicateID, example_db)"
    by (simp add: prod_eq_iff)
  let ?E = "failing (OtherError ''bad connection'')"
  have f: "fail ?E = Some (OtherError ''bad connection'')" by (simp add: failing_def)
  note y = Exec_failed [folded ExecContext_def, OF f, of example_db
      "''INSERT INTO '' @ tName example_store @ '' VALUES ($1, $2, $3, $4, $5, $6, $7);''"
      "[VTime (CreatedAt example_session), VTime (ExpiresAt example_session),
        VText (ID example_session), VText (UserKey example_session),
        Value (setNullString (IP_String example_net (IP example_session))),
        Value (setNullString (OS (Agent example_session))),
        Value (setNullString (Browser (Agent example_session)))]"]
  note w = Create_errors [OF y]
  have "fst (Create example_net example_store ?E example_session example_db) =
      Some (DBError (OtherError ''bad connection''))"
    using w by simp
  moreover have "snd (Create example_net example_store ?E example_session example_db) = example_db"
    using w by blast
  ultimately have two: "Create example_net example_store ?E example_session example_db =
      (Some (DBError (OtherError ''bad connection'')), example_db)"
    by (simp add: prod_eq_iff)
  from one two show ?thesis by blast
qed

section \<open>New\<close>

lemma Exec_table:
  assumes "is_ident t" and "fail E = None"
  shows "Exec E d (table t) [] =
     (case d (fold_ident t) of
        None \<Rightarrow> (None, d(fold_ident t \<mapsto>
                 \<lparr>rows = [], indexes = [(fold_ident t @ ''_pkey'', [''id''])]\<rparr>))
      | Some tb \<Rightarrow> (None, d))"
  by (simp only: Exec_parsed [OF assms(2) parse_table [OF assms(1)]] run_create_table)

lemma New_result:
  "Exec E d (table t) [] = (u, d') \<Longrightarrow>
   New E d t dur =
     (case u of
        Some e \<Rightarrow> (Inl (DBError e), NotStarted, d')
      | None \<Rightarrow>
          (Inr \<lparr>tName = t, stopChan = None, errChan = Some 0\<rparr>,
           if 0 < dur then Spawned dur else NotStarted, d'))"
  by (simp add: New_def Let_def split: option.splits)

lemma session_columns_shape:
  "length session_columns = 7
   \<and> map cname session_columns =
       [''created_at'', ''expires_at'', ''id'', ''user_key'', ''ip'', ''agent_os'',
        ''agent_browser'']
   \<and> filter is_pkey session_columns = [Column ''id'' TEXT [PRIMARY_KEY]]"
  by (simp add: session_columns_def is_pkey_def)

text \<open>
  C6, as amended. With a table name that is an identifier and a call that reaches the
  server, \<^verbatim>\<open>New\<close> sends one statement, which parses to
  \<^verbatim>\<open>CREATE TABLE IF NOT EXISTS\<close> with the seven columns creation time, expiration time,
  id (the primary key), user key, ip, agent OS and agent browser: where the table is
  absent, \<^verbatim>\<open>New\<close> creates it, empty, its only index that of the primary key, and
  where the table is present \<^verbatim>\<open>New\<close> leaves the database as it is; both times it
  returns the store. When the statement fails, \<^verbatim>\<open>New\<close> returns the error, no store,
  starts no goroutine and leaves the database as it is.
\<close>

theorem New_creates_table:
  "(is_ident t \<and> fail E = None \<longrightarrow>
      parse (table t) = Some (CreateTable True (fold_ident t) session_columns)
      \<and> (d (fold_ident t) = None \<longrightarrow>
           New E d t dur =
             (Inr \<lparr>tName = t, stopChan = None, errChan = Some 0\<rparr>,
              if 0 < dur then Spawned dur else NotStarted,
              d(fold_ident t \<mapsto>
                \<lparr>rows = [], indexes = [(fold_ident t @ ''_pkey'', [''id''])]\<rparr>)))
      \<and> (d (fold_ident t) \<noteq> None \<longrightarrow>
           New E d t dur =
             (Inr \<lparr>tName = t, stopChan = None, errChan = Some 0\<rparr>,
              if 0 < dur then Spawned dur else NotStarted, d)))
   \<and> length session_columns = 7
   \<and> map cname session_columns =
       [''created_at'', ''expires_at'', ''id'', ''user_key'', ''ip'', ''agent_os'',
        ''agent_browser'']
   \<and> filter is_pkey session_columns = [Column ''id'' TEXT [PRIMARY_KEY]]
   \<and> (\<forall>e. fst (Exec E d (table t) []) = Some e \<longrightarrow>
         New E d t dur = (Inl (DBError e), NotStarted, d))
   \<and> (\<forall>e. fail E = Some e \<longrightarrow> New E d t dur = (Inl (DBError e), NotStarted, d))"
proof -
  have ok: "is_ident t \<and> fail E = None \<longrightarrow>
      parse (table t) = Some (CreateTable True (fold_ident t) session_columns)
      \<and> (d (fold_ident t) = None \<longrightarrow>
           New E d t dur =
             (Inr \<lparr>tName = t, stopChan = None, errChan = Some 0\<rparr>,
              if 0 < dur then Spawned dur else NotStarted,
              d(fold_ident t \<mapsto>
                \<lparr>rows = [], indexes = [(fold_ident t @ ''_pkey'', [''id''])]\<rparr>)))
      \<and> (d (fold_ident t) \<noteq> None \<longrightarrow>
           New E d t dur =
             (Inr \<lparr>tName = t, stopChan = None, errChan = Some 0\<rparr>,
              if 0 < dur then Spawned dur else NotStarted, d))"
  proof
    assume h: "is_ident t \<and> fail E = None"
    then have i: "is_ident t" and f: "fail E = None" by simp_all
    have p: "parse (table t) = Some (CreateTable True (fold_ident t) session_columns)"
      using i by (rule parse_table)
    have a: "d (fold_ident t) = None \<longrightarrow>
           New E d t dur =
             (Inr \<lparr>tName = t, stopChan = None, errChan = Some 0\<rparr>,
              if 0 < dur then Spawned dur else NotStarted,
              d(fold_ident t \<mapsto>
                \<lparr>rows = [], indexes = [(fold_ident t @ ''_pkey'', [''id''])]\<rparr>))"
    proof
      assume n: "d (fold_ident t) = None"
      have "Exec E d (table t) [] = (None, d(fold_ident t \<mapsto>
                 \<lparr>rows = [], indexes = [(fold_ident t @ ''_pkey'', [''id''])]\<rparr>))"
        by (simp only: Exec_table [OF i f] n option.case)
      from New_result [OF this] show "New E d t dur =
             (Inr \<lparr>tName = t, stopChan = None, errChan = Some 0\<rparr>,
              if 0 < dur then Spawned dur else NotStarted,
              d(fold_ident t \<mapsto>
                \<lparr>rows = [], indexes = [(fold_ident t @ ''_pkey'', [''id''])]\<rparr>))"
        by simp
    qed
    have b: "d (fold_ident t) \<noteq> None \<longrightarrow>
           New E d t dur =
             (Inr \<lparr>tName = t, stopChan = None, errChan = Some 0\<rparr>,
              if 0 < dur then Spawned dur else NotStarted, d)"
    proof
      assume "d (fold_ident t) \<noteq> None"
      then obtain tb where s: "d (fold_ident t) = Some tb" by blast
      have "Exec E d (table t) [] = (None, d)"
        by (simp only: Exec_table [OF i f] s option.case)
      from New_result [OF this] show "New E d t dur =
             (Inr \<lparr>tName = t, stopChan = None, errChan = Some 0\<rparr>,
              if 0 < dur then Spawned dur else NotStarted, d)"
        by simp
    qed
    from p a b show "parse (table t) = Some (CreateTable True (fold_ident t) session_columns)
      \<and> (d (fold_ident t) = None \<longrightarrow>
           New E d t dur =
             (Inr \<lparr>tName = t, stopChan = None, errChan = Some 0\<rparr>,
              if 0 < dur then Spawned dur else NotStarted,
              d(fold_ident t \<mapsto>
                \<lparr>rows = [], indexes = [(fold_ident t @ ''_pkey'', [''id''])]\<rparr>)))
      \<and> (d (fold_ident t) \<noteq> None \<longrightarrow>
           New E d t dur =
             (Inr \<lparr>tName = t, stopChan = None, errChan = Some 0\<rparr>,
              if 0 < dur then Spawned dur else NotStarted, d))"
      by blast
  qed
  have failed: "\<forall>e. fst (Exec E d (table t) []) = Some e \<longrightarrow>
         New E d t dur = (Inl (DBError e), NotStarted, d)"
  proof (intro allI impI)
    fix e
    assume e: "fst (Exec E d (table t) []) = Some e"
    obtain u d' where x: "Exec E d (table t) [] = (u, d')" by (cases "Exec E d (table t) []")
    with e have u: "u = Some e" by simp
    with Exec_result_unchanged [OF x] have "d' = d" by simp
    with New_result [OF x] u show "New E d t dur = (Inl (DBError e), NotStarted, d)" by simp
  qed
  have conn: "\<forall>e. fail E = Some e \<longrightarrow> New E d t dur = (Inl (DBError e), NotStarted, d)"
    using failed by (simp add: Exec_failed)
  from ok session_columns_shape failed conn show ?thesis by blast
qed

lemma no_tables_sessions: "no_tables (fold_ident ''sessions'') = None"
  by (simp add: no_tables_def)

text \<open>
  The theorem on a database with no tables, on the example database, and on a bad
  connection.
\<close>

theorem New_creates_table_witness:
  "New (at_time 10) no_tables ''sessions'' 0 =
     (Inr \<lparr>tName = ''sessions'', stopChan = None, errChan = Some 0\<rparr>, NotStarted,
      no_tables(''sessions'' \<mapsto> \<lparr>rows = [], indexes = [(''sessions_pkey'', [''id''])]\<rparr>))
   \<and> New (at_time 10) example_db ''sessions'' 0 =
     (Inr \<lparr>tName = ''sessions'', stopChan = None, errChan = Some 0\<rparr>, NotStarted, example_db)
   \<and> New (failing (OtherError ''bad connection'')) no_tables ''sessions'' 0 =
     (Inl (DBError (OtherError ''bad connection'')), NotStarted, no_tables)"
proof -
  have a: "is_ident ''sessions'' \<and> fail (at_time 10) = None"
    by (simp add: sessions_ident at_time_def)
  have e: "example_db (fold_ident ''sessions'') \<noteq> None"
    by (simp add: sessions_ident example_db_def)
  have f: "fail (failing (OtherError ''bad connection'')) = Some (OtherError ''bad connection'')"
    by (simp add: failing_def)
  have one: "New (at_time 10) no_tables ''sessions'' 0 =
     (Inr \<lparr>tName = ''sessions'', stopChan = None, errChan = Some 0\<rparr>, NotStarted,
      no_tables(''sessions'' \<mapsto> \<lparr>rows = [], indexes = [(''sessions_pkey'', [''id''])]\<rparr>))"
    using New_creates_table [of "''sessions''" "at_time 10" no_tables 0] a no_tables_sessions
    by (simp add: sessions_ident)
  have two: "New (at_time 10) example_db ''sessions'' 0 =
     (Inr \<lparr>tName = ''sessions'', stopChan = None, errChan = Some 0\<rparr>, NotStarted, example_db)"
    using New_creates_table [of "''sessions''" "at_time 10" example_db 0] a e
    by simp
  have three: "New (failing (OtherError ''bad connection'')) no_tables ''sessions'' 0 =
     (Inl (DBError (OtherError ''bad connection'')), NotStarted, no_tables)"
    using New_creates_table [of "''sessions''" "failing (OtherError ''bad connection'')"
      no_tables 0] f
    by blast
  from one two three show ?thesis by blast
qed

text \<open>
  C6 as stated fails: after \<^verbatim>\<open>New\<close> on a database with no tables, the table's only
  index is the one of its primary key, on the column \<^verbatim>\<open>id\<close>; there is none on the
  expiration column, and the statement sent does not hold the word \<^verbatim>\<open>INDEX\<close>.
\<close>

theorem New_index_counterexample:
  "map_option indexes (snd (snd (New (at_time 10) no_tables ''sessions'' 0)) ''sessions'') =
     Some [(''sessions_pkey'', [''id''])]
   \<and> map_option indexed_columns (snd (snd (New (at_time 10) no_tables ''sessions'' 0)) ''sessions'') =
     Some [''id'']
   \<and> ''INDEX'' \<notin> set (tokens (table ''sessions''))"
proof -
  have i: "is_ident ''sessions''" and f: "fail (at_time 10) = None"
    by (simp_all add: sessions_ident at_time_def)
  have "Exec (at_time 10) no_tables (table ''sessions'') [] =
      (None, no_tables(''sessions'' \<mapsto> \<lparr>rows = [], indexes = [(''sessions_pkey'', [''id''])]\<rparr>))"
    by (simp only: Exec_table [OF i f] no_tables_sessions option.case) (simp add: sessions_ident)
  from New_result [OF this]
  have "snd (snd (New (at_time 10) no_tables ''sessions'' 0)) ''sessions'' =
      Some \<lparr>rows = [], indexes = [(''sessions_pkey'', [''id''])]\<rparr>"
    by simp
  moreover have "''INDEX'' \<notin> set (tokens (table ''sessions''))"
    by (simp only: tokens_table [OF i]) simp
  ultimately show ?thesis by (simp add: indexed_columns_def)
qed

section \<open>The cleanup goroutine\<close>





lemma step_not_started: "sweeper s = NotStarted \<Longrightarrow> startCleanup_step ev s = None"
  by (cases ev) (simp_all add: startCleanup_step_def)

lemma run_not_started: "sweeper s = NotStarted \<Longrightarrow> startCleanup evs s = (s, [])"
  by (induction evs) (simp_all add: step_not_started)














section \<open>StopCleanup\<close>

text \<open>
  C8. A store that \<^verbatim>\<open>New\<close> returned for the interval 0 has no cleanup goroutine and a
  nil \<^verbatim>\<open>stopChan\<close>, and stays so whatever events arrive; \<^verbatim>\<open>StopCleanup\<close> on it
  returns, without a send, and changes nothing.
\<close>

theorem StopCleanup_unstarted:
  assumes "New E d t 0 = (Inr p, g, d')"
  shows "g = NotStarted \<and> stopChan p = None
         \<and> StopCleanup \<lparr>store = p, sweeper = g, database = d'\<rparr> =
             Returns \<lparr>store = p, sweeper = g, database = d'\<rparr>
         \<and> (\<forall>evs. startCleanup evs \<lparr>store = p, sweeper = g, database = d'\<rparr> =
                     (\<lparr>store = p, sweeper = g, database = d'\<rparr>, []))"
proof -
  obtain u d1 where x: "Exec E d (table t) [] = (u, d1)" by (cases "Exec E d (table t) []")
  from New_result [OF x, of 0] assms
  have g: "g = NotStarted" and p: "p = \<lparr>tName = t, stopChan = None, errChan = Some 0\<rparr>"
    by (auto split: option.splits)
  have s: "StopCleanup \<lparr>store = p, sweeper = g, database = d'\<rparr> =
      Returns \<lparr>store = p, sweeper = g, database = d'\<rparr>"
    by (simp add: StopCleanup_def p)
  have r: "\<forall>evs. startCleanup evs \<lparr>store = p, sweeper = g, database = d'\<rparr> =
      (\<lparr>store = p, sweeper = g, database = d'\<rparr>, [])"
    by (simp add: run_not_started g)
  from g p s r show ?thesis by simp
qed

text \<open>The theorem at the store that \<^verbatim>\<open>New\<close> makes on a database with no tables.\<close>

theorem StopCleanup_unstarted_witness:
  "StopCleanup
     \<lparr>store = \<lparr>tName = ''sessions'', stopChan = None, errChan = Some 0\<rparr>,
      sweeper = NotStarted,
      database = no_tables(''sessions'' \<mapsto>
        \<lparr>rows = [], indexes = [(''sessions_pkey'', [''id''])]\<rparr>)\<rparr> =
   Returns
     \<lparr>store = \<lparr>tName = ''sessions'', stopChan = None, errChan = Some 0\<rparr>,
      sweeper = NotStarted,
      database = no_tables(''sessions'' \<mapsto>
        \<lparr>rows = [], indexes = [(''sessions_pkey'', [''id''])]\<rparr>)\<rparr>"
proof -
  have i: "is_ident ''sessions''" and f: "fail (at_time 10) = None"
    by (simp_all add: sessions_ident at_time_def)
  have "Exec (at_time 10) no_tables (table ''sessions'') [] =
      (None, no_tables(''sessions'' \<mapsto> \<lparr>rows = [], indexes = [(''sessions_pkey'', [''id''])]\<rparr>))"
    by (simp only: Exec_table [OF i f] no_tables_sessions option.case) (simp add: sessions_ident)
  from New_result [OF this, of 0]
  have "New (at_time 10) no_tables ''sessions'' 0 =
      (Inr \<lparr>tName = ''sessions'', stopChan = None, errChan = Some 0\<rparr>, NotStarted,
       no_tables(''sessions'' \<mapsto> \<lparr>rows = [], indexes = [(''sessions_pkey'', [''id''])]\<rparr>))"
    by simp
  from StopCleanup_unstarted [OF this] show ?thesis by blast
qed

end
